theory Spec2Isabelle
  imports Complex_Main "HOL-Library.Multiset"
begin

section \<open>Python and numpy values\<close>

text \<open>
  Exceptions of the Python code, one constructor per exception class and origin.
  The two \<open>ValueError\<close>s that \<open>normalize_timestamps\<close> raises itself are told apart by
  their message (missing date hint, unsupported format); the others come from numpy
  and from Python's sequence unpacking.
\<close>

datatype since_unit = Hours | Seconds

datatype time_type =
    Unknown
  | Datetime64
  | Since since_unit
  | SinceMidnight since_unit
  | NumericTime

datatype error =
    KeyError string
  | AttributeError
  | TypeError
  | IndexError
  | ValueError_broadcast
  | ValueError_zero_size
  | ValueError_unpack
  | ValueError_missing_date_hint
  | ValueError_unsupported time_type

text \<open>
  A numpy float64 value: a finite number, an infinity or NaN. Finite values are real
  numbers, so rounding, overflow to infinity and the sign of zero are outside the model;
  the special values follow IEEE 754 as numpy applies it.
\<close>

datatype npfloat = Fin real | PInf | NInf | NaN

fun fneg :: "npfloat \<Rightarrow> npfloat" where
  "fneg (Fin x) = Fin (- x)"
| "fneg PInf = NInf"
| "fneg NInf = PInf"
| "fneg NaN = NaN"

fun fadd :: "npfloat \<Rightarrow> npfloat \<Rightarrow> npfloat" where
  "fadd NaN _ = NaN"
| "fadd _ NaN = NaN"
| "fadd (Fin x) (Fin y) = Fin (x + y)"
| "fadd PInf NInf = NaN"
| "fadd NInf PInf = NaN"
| "fadd PInf _ = PInf"
| "fadd NInf _ = NInf"
| "fadd (Fin x) PInf = PInf"
| "fadd (Fin x) NInf = NInf"

definition fsub :: "npfloat \<Rightarrow> npfloat \<Rightarrow> npfloat" where
  "fsub a b = fadd a (fneg b)"

definition inf_of_sign :: "bool \<Rightarrow> npfloat" where
  "inf_of_sign positive = (if positive then PInf else NInf)"

fun fmul :: "npfloat \<Rightarrow> npfloat \<Rightarrow> npfloat" where
  "fmul NaN _ = NaN"
| "fmul _ NaN = NaN"
| "fmul (Fin x) (Fin y) = Fin (x * y)"
| "fmul (Fin x) PInf = (if x = 0 then NaN else inf_of_sign (0 < x))"
| "fmul (Fin x) NInf = (if x = 0 then NaN else inf_of_sign (x < 0))"
| "fmul PInf (Fin y) = (if y = 0 then NaN else inf_of_sign (0 < y))"
| "fmul NInf (Fin y) = (if y = 0 then NaN else inf_of_sign (y < 0))"
| "fmul PInf PInf = PInf"
| "fmul PInf NInf = NInf"
| "fmul NInf PInf = NInf"
| "fmul NInf NInf = PInf"

fun fdiv :: "npfloat \<Rightarrow> npfloat \<Rightarrow> npfloat" where
  "fdiv NaN _ = NaN"
| "fdiv _ NaN = NaN"
| "fdiv (Fin x) (Fin y) =
     (if y = 0 then (if x = 0 then NaN else inf_of_sign (0 < x)) else Fin (x / y))"
| "fdiv (Fin x) PInf = Fin 0"
| "fdiv (Fin x) NInf = Fin 0"
| "fdiv PInf (Fin y) = inf_of_sign (0 \<le> y)"
| "fdiv NInf (Fin y) = inf_of_sign (y < 0)"
| "fdiv PInf _ = NaN"
| "fdiv NInf _ = NaN"

fun fsin :: "npfloat \<Rightarrow> npfloat" where
  "fsin (Fin x) = Fin (sin x)"
| "fsin _ = NaN"

fun fcos :: "npfloat \<Rightarrow> npfloat" where
  "fcos (Fin x) = Fin (cos x)"
| "fcos _ = NaN"

text \<open>\<open>fless a b\<close> is numpy's \<open>a < b\<close>: false as soon as one side is NaN.\<close>

fun fless :: "npfloat \<Rightarrow> npfloat \<Rightarrow> bool" where
  "fless NaN _ = False"
| "fless _ NaN = False"
| "fless (Fin x) (Fin y) = (x < y)"
| "fless (Fin x) PInf = True"
| "fless (Fin x) NInf = False"
| "fless PInf _ = False"
| "fless NInf NInf = False"
| "fless NInf _ = True"

fun isfinite :: "npfloat \<Rightarrow> bool" where
  "isfinite (Fin x) = True"
| "isfinite _ = False"

text \<open>\<open>np.maximum\<close> of two values, which propagates NaN, and \<open>np.max\<close> of an array,
  which raises ValueError on an empty one.\<close>

fun fmax :: "npfloat \<Rightarrow> npfloat \<Rightarrow> npfloat" where
  "fmax NaN _ = NaN"
| "fmax _ NaN = NaN"
| "fmax a b = (if fless a b then b else a)"

fun np_max_float :: "npfloat list \<Rightarrow> error + npfloat" where
  "np_max_float [] = Inl ValueError_zero_size"
| "np_max_float (x # xs) = Inr (fold (\<lambda>v acc. fmax acc v) xs x)"

fun np_max_int :: "int list \<Rightarrow> error + int" where
  "np_max_int [] = Inl ValueError_zero_size"
| "np_max_int (x # xs) = Inr (fold (\<lambda>v acc. max acc v) xs x)"

section \<open>64-bit integers, datetime64 and timedelta64\<close>

text \<open>
  An int64 is an \<open>int\<close> between \<open>-2^63\<close> and \<open>2^63 - 1\<close>; \<open>wrap64\<close> is the
  wrap-around of every int64 operation. datetime64 and timedelta64 values are int64
  ticks of their unit, and the smallest int64 is NaT (not a time), which every
  operation on ticks preserves.
\<close>

definition wrap64 :: "int \<Rightarrow> int" where
  "wrap64 x = (x + 2 ^ 63) mod 2 ^ 64 - 2 ^ 63"

definition NaT :: int where
  "NaT = - (2 ^ 63)"

definition dt_add :: "int \<Rightarrow> int \<Rightarrow> int" where
  "dt_add a b = (if a = NaT \<or> b = NaT then NaT else wrap64 (a + b))"

definition dt_sub :: "int \<Rightarrow> int \<Rightarrow> int" where
  "dt_sub a b = (if a = NaT \<or> b = NaT then NaT else wrap64 (a - b))"

text \<open>The units of a datetime64 array whose ticks are a fixed number of seconds or a
  fixed fraction of one. \<open>astype("datetime64[s]")\<close> multiplies the ticks of a coarser
  unit and divides those of a finer unit, rounding towards minus infinity.\<close>

datatype dt_unit = Day | Hour | Minute | Second | Milli | Micro | Nano

fun cast_s :: "dt_unit \<Rightarrow> int \<Rightarrow> int" where
  "cast_s Day t = (if t = NaT then NaT else wrap64 (t * 86400))"
| "cast_s Hour t = (if t = NaT then NaT else wrap64 (t * 3600))"
| "cast_s Minute t = (if t = NaT then NaT else wrap64 (t * 60))"
| "cast_s Second t = t"
| "cast_s Milli t = (if t = NaT then NaT else t div 1000)"
| "cast_s Micro t = (if t = NaT then NaT else t div 1000000)"
| "cast_s Nano t = (if t = NaT then NaT else t div 1000000000)"

text \<open>A float cast to timedelta64[s]: the fraction is cut off (towards zero); NaN, the
  infinities and values outside int64 become NaT.\<close>

definition trunc :: "real \<Rightarrow> int" where
  "trunc x = (if 0 \<le> x then \<lfloor>x\<rfloor> else \<lceil>x\<rceil>)"

fun float_to_td :: "npfloat \<Rightarrow> int" where
  "float_to_td (Fin x) =
     (let t = trunc x in if - (2 ^ 63) < t \<and> t < 2 ^ 63 then t else NaT)"
| "float_to_td _ = NaT"

text \<open>
  The values of a time variable (\<open>time_var.values\<close>), by dtype kind: datetime64 (kind
  \<open>M\<close>, with its unit), float64 (kind \<open>f\<close>), int64 (kind \<open>i\<close>) and uint64 (kind
  \<open>u\<close>), each with its elements in row-major order. Other dtypes are not modelled.
\<close>

datatype time_values =
    DatetimeVals dt_unit "int list"
  | FloatVals "npfloat list"
  | IntVals "int list"
  | UIntVals "nat list"

text \<open>
  A time variable (an \<open>xr.DataArray\<close>): its values, their number of dimensions, and the
  two attributes the code reads or writes. \<open>tv_units_since\<close> is the outcome of lines
  112 to 122 of timeutils.py on the \<open>units\<close> attribute: \<open>Some (u, base)\<close> when the
  lower-cased text matches \<open>(seconds|hours)\s+since\s+([0-9T:\- ]+)\<close> and
  \<open>np.datetime64\<close> accepts the reference text, \<open>base\<close> being that instant in
  datetime64[s] ticks; \<open>None\<close> when there is no units attribute, no match, or the
  reference text is refused (the ValueError caught at line 134).
\<close>

record time_var =
  tv_values :: time_values
  tv_ndim :: nat
  tv_units_since :: "(since_unit \<times> int) option"
  tv_normalized :: bool

text \<open>The dict that \<open>detect_time_var_type\<close> returns.\<close>

record time_info =
  ti_type :: time_type
  ti_base_time :: "int option"
  ti_time_array :: time_values
  ti_wrapped :: bool

section \<open>timeutils.py\<close>

text \<open>\<open>np.diff\<close>: the differences of consecutive elements, in the array's own
  arithmetic.\<close>

definition np_diff_float :: "npfloat list \<Rightarrow> npfloat list" where
  "np_diff_float xs = map (\<lambda>(a, b). fsub b a) (zip xs (tl xs))"

definition np_diff_int :: "int list \<Rightarrow> int list" where
  "np_diff_int xs = map (\<lambda>(a, b). wrap64 (b - a)) (zip xs (tl xs))"

definition np_diff_uint :: "nat list \<Rightarrow> nat list" where
  "np_diff_uint xs = map (\<lambda>(a, b). nat ((int b - int a) mod 2 ^ 64)) (zip xs (tl xs))"

definition np_diff_dt :: "int list \<Rightarrow> int list" where
  "np_diff_dt xs = map (\<lambda>(a, b). dt_sub b a) (zip xs (tl xs))"

text \<open>\<open>has_wraparound\<close> (lines 11 to 14): \<open>np.any(np.diff(time_array) < 0)\<close>. A NaT
  difference compares false.\<close>

fun has_wraparound :: "time_values \<Rightarrow> bool" where
  "has_wraparound (FloatVals xs) = list_ex (\<lambda>d. fless d (Fin 0)) (np_diff_float xs)"
| "has_wraparound (IntVals xs) = list_ex (\<lambda>d. d < 0) (np_diff_int xs)"
| "has_wraparound (UIntVals xs) = list_ex (\<lambda>d. int d < 0) (np_diff_uint xs)"
| "has_wraparound (DatetimeVals u xs) = list_ex (\<lambda>d. d \<noteq> NaT \<and> d < 0) (np_diff_dt xs)"

text \<open>
  The time delta of lines 125 to 127 and of lines 170 and 177:
  \<open>(values * 3600).astype("timedelta64[s]")\<close> for hours and
  \<open>values.astype("timedelta64[s]")\<close> for seconds. numpy refuses both on a datetime64
  array (TypeError).
\<close>

fun to_delta :: "since_unit \<Rightarrow> time_values \<Rightarrow> error + int list" where
  "to_delta Hours (FloatVals xs) = Inr (map (\<lambda>v. float_to_td (fmul v (Fin 3600))) xs)"
| "to_delta Seconds (FloatVals xs) = Inr (map float_to_td xs)"
| "to_delta Hours (IntVals xs) = Inr (map (\<lambda>v. wrap64 (v * 3600)) xs)"
| "to_delta Seconds (IntVals xs) = Inr xs"
| "to_delta Hours (UIntVals xs) = Inr (map (\<lambda>v. wrap64 (int v * 3600)) xs)"
| "to_delta Seconds (UIntVals xs) = Inr (map (\<lambda>v. wrap64 (int v)) xs)"
| "to_delta u (DatetimeVals d xs) = Inl TypeError"

text \<open>Case 3 of \<open>detect_time_var_type\<close> (lines 139 to 148), for a float or int array
  of one dimension.\<close>

definition classify_float :: "npfloat list \<Rightarrow> error + time_type" where
  "classify_float xs =
     (case np_max_float xs of
        Inl e \<Rightarrow> Inl e
      | Inr m \<Rightarrow>
          Inr (if fless m (Fin 25) then SinceMidnight Hours
               else if fless m (Fin 86400) then SinceMidnight Seconds
               else NumericTime))"

definition classify_int :: "int list \<Rightarrow> error + time_type" where
  "classify_int xs =
     (case np_max_int xs of
        Inl e \<Rightarrow> Inl e
      | Inr m \<Rightarrow>
          Inr (if m < 25 then SinceMidnight Hours
               else if m < 86400 then SinceMidnight Seconds
               else NumericTime))"

definition detect_case3 :: "time_var \<Rightarrow> time_info \<Rightarrow> error + time_info" where
  "detect_case3 tv result =
     (let values = tv_values tv in
      case values of
        FloatVals xs \<Rightarrow>
          (if tv_ndim tv = 1 then
             (let result1 = (if has_wraparound values then result\<lparr>ti_wrapped := True\<rparr> else result) in
              case classify_float xs of
                Inl e \<Rightarrow> Inl e
              | Inr t \<Rightarrow> Inr (result1\<lparr>ti_type := t\<rparr>))
           else Inr result)
      | IntVals xs \<Rightarrow>
          (if tv_ndim tv = 1 then
             (let result1 = (if has_wraparound values then result\<lparr>ti_wrapped := True\<rparr> else result) in
              case classify_int xs of
                Inl e \<Rightarrow> Inl e
              | Inr t \<Rightarrow> Inr (result1\<lparr>ti_type := t\<rparr>))
           else Inr result)
      | _ \<Rightarrow> Inr result)"

text \<open>\<open>detect_time_var_type\<close> (lines 86 to 150). An exception inside the \<open>try\<close> of
  lines 121 to 136 is swallowed and the numeric heuristics run on the result as it
  stands, with \<open>base_time\<close> already set.\<close>

definition detect_time_var_type :: "time_var \<Rightarrow> error + time_info" where
  "detect_time_var_type tv =
     (let values = tv_values tv;
          result = \<lparr>ti_type = Unknown, ti_base_time = None,
                    ti_time_array = values, ti_wrapped = False\<rparr>
      in case values of
           DatetimeVals u xs \<Rightarrow> Inr (result\<lparr>ti_type := Datetime64, ti_time_array := values\<rparr>)
         | _ \<Rightarrow>
           (case tv_units_since tv of
              None \<Rightarrow> detect_case3 tv result
            | Some (unit_str, base_time) \<Rightarrow>
                (let result1 = result\<lparr>ti_base_time := Some base_time\<rparr> in
                 case to_delta unit_str values of
                   Inl e \<Rightarrow> detect_case3 tv result1
                 | Inr delta \<Rightarrow>
                     Inr (result1\<lparr>ti_time_array := DatetimeVals Second (map (dt_add base_time) delta),
                                  ti_type := Since unit_str\<rparr>))))"

text \<open>The inner function \<open>wrap\<close> of \<open>normalize_timestamps\<close> (lines 159 to 163): the
  result keeps dimensions, coordinates and attributes and is marked as normalized.\<close>

definition wrap :: "time_var \<Rightarrow> int list \<Rightarrow> time_var" where
  "wrap time_array result =
     time_array\<lparr>tv_values := DatetimeVals Second result, tv_normalized := True\<rparr>"

text \<open>
  \<open>normalize_timestamps\<close> (lines 152 to 180). The date hint is a datetime64[D], that
  is a number of days since 1970-01-01; \<open>astype("datetime64[s]")\<close> is \<open>cast_s Day\<close>.
\<close>

definition normalize_timestamps :: "time_var \<Rightarrow> int option \<Rightarrow> error + time_var" where
  "normalize_timestamps time_array date_hint =
     (case detect_time_var_type time_array of
        Inl e \<Rightarrow> Inl e
      | Inr info \<Rightarrow>
          (let values = tv_values time_array in
           case values of
             DatetimeVals u xs \<Rightarrow> Inr (wrap time_array (map (cast_s u) xs))
           | _ \<Rightarrow>
             (case (ti_type info, ti_base_time info) of
                (Since u, Some base) \<Rightarrow>
                  (case to_delta u values of
                     Inl e \<Rightarrow> Inl e
                   | Inr delta \<Rightarrow> Inr (wrap time_array (map (dt_add base) delta)))
              | (SinceMidnight u, _) \<Rightarrow>
                  (case date_hint of
                     None \<Rightarrow> Inl ValueError_missing_date_hint
                   | Some d \<Rightarrow>
                       (case to_delta u values of
                          Inl e \<Rightarrow> Inl e
                        | Inr delta \<Rightarrow>
                            Inr (wrap time_array (map (dt_add (cast_s Day d)) delta))))
              | (t, _) \<Rightarrow> Inl (ValueError_unsupported t))))"

text \<open>
  \<open>resolve_time_hours\<close> (lines 16 to 45): every sample after a backward step is moved
  one more day forward before the hours are turned into seconds. The loop of lines 37
  and 38 adds one to \<open>day_shifts\<close> from index \<open>wrap_index + 1\<close> on.
\<close>

definition wrap_points :: "npfloat list \<Rightarrow> nat list" where
  "wrap_points hr =
     filter (\<lambda>i. fless (np_diff_float hr ! i) (Fin 0)) [0..<length (np_diff_float hr)]"

definition shift_from :: "nat \<Rightarrow> int list \<Rightarrow> int list" where
  "shift_from k day_shifts = take k day_shifts @ map (\<lambda>s. s + 1) (drop k day_shifts)"

definition resolve_time_hours :: "npfloat list \<Rightarrow> int \<Rightarrow> int list" where
  "resolve_time_hours hr base_date =
     (let wps = wrap_points hr;
          hr1 = (if length wps > 0 then
                   (let day_shifts = fold (\<lambda>wrap_index ds. shift_from (wrap_index + 1) ds)
                                          wps (replicate (length hr) 0)
                    in map (\<lambda>(h, s). fadd h (Fin (of_int (s * 24)))) (zip hr day_shifts))
                 else hr);
          delta = map (\<lambda>h. float_to_td (fmul h (Fin 3600))) hr1
      in map (dt_add (cast_s Day base_date)) delta)"

text \<open>
  An attribute value of a dataset: a Python \<open>str\<close>, or a value of another type (a
  number, an array) given by the text that \<open>str()\<close> makes of it. Text is a list of
  bytes, and the digits of the regular expressions are the ASCII digits.
\<close>

datatype attr_value = TextAttr string | OtherAttr string

fun py_str :: "attr_value \<Rightarrow> string" where
  "py_str (TextAttr s) = s"
| "py_str (OtherAttr s) = s"

definition is_digit :: "char \<Rightarrow> bool" where
  "is_digit c = (let n = (of_char c :: nat) in 48 \<le> n \<and> n \<le> 57)"

definition digits_val :: "string \<Rightarrow> nat" where
  "digits_val s = foldl (\<lambda>a c. 10 * a + (of_char c - 48)) 0 s"

definition leap_year :: "nat \<Rightarrow> bool" where
  "leap_year y = (y mod 4 = 0 \<and> (y mod 100 \<noteq> 0 \<or> y mod 400 = 0))"

definition days_in_month :: "nat \<Rightarrow> nat \<Rightarrow> nat" where
  "days_in_month y m =
     (if m = 2 then (if leap_year y then 29 else 28)
      else if m = 4 \<or> m = 6 \<or> m = 9 \<or> m = 11 then 30 else 31)"

text \<open>The days from 1970-01-01 to a date of the proleptic Gregorian calendar: the ticks
  of a datetime64[D].\<close>

definition days_from_civil :: "nat \<Rightarrow> nat \<Rightarrow> nat \<Rightarrow> int" where
  "days_from_civil y m d =
     (let y1 = (if m \<le> 2 then int y - 1 else int y);
          era = y1 div 400;
          yoe = y1 - era * 400;
          mp = (if m > 2 then int m - 3 else int m + 9);
          doy = (153 * mp + 2) div 5 + int d - 1;
          doe = yoe * 365 + yoe div 4 - yoe div 100 + doy
      in era * 146097 + doe - 719468)"

text \<open>
  \<open>np.datetime64(text)\<close> on the texts that \<open>get_date_hint\<close> builds, which always hold
  the two hyphens of the f-string: the year is the leading run of digits, then come a
  hyphen, a month of two digits, a hyphen and a day of two digits, and nothing else.
  A month outside 1..12, a day outside the month, or any other shape is numpy's
  ValueError, here \<open>None\<close>. (The shapes without two hyphens after the year, and those
  with a time of day, which numpy also reads, cannot reach this function.)
\<close>

definition np_datetime64 :: "string \<Rightarrow> int option" where
  "np_datetime64 s =
     (let ys = takeWhile is_digit s; rest = dropWhile is_digit s in
      if ys = [] then None
      else (case rest of
              [h1, m1, m2, h2, d1, d2] \<Rightarrow>
                (if h1 = CHR ''-'' \<and> h2 = CHR ''-'' \<and> list_all is_digit [m1, m2, d1, d2] then
                   (let y = digits_val ys; m = digits_val [m1, m2]; d = digits_val [d1, d2] in
                    if 1 \<le> m \<and> m \<le> 12 \<and> 1 \<le> d \<and> d \<le> days_in_month y m
                    then Some (days_from_civil y m d) else None)
                 else None)
            | _ \<Rightarrow> None))"

text \<open>The f-string of lines 59, 74 and 80:
  \<open>f"{date_str[:4]}-{date_str[4:6]}-{date_str[6:]}"\<close>.\<close>

definition dashed :: "string \<Rightarrow> string" where
  "dashed date_str = take 4 date_str @ ''-'' @ take 2 (drop 4 date_str) @ ''-'' @ drop 6 date_str"

text \<open>\<open>$\<close> matches at the end of the text and before a newline that ends it.\<close>

definition strip_final_newline :: "string \<Rightarrow> string" where
  "strip_final_newline s = (if s \<noteq> [] \<and> last s = CHR 0x0A then butlast s else s)"

text \<open>\<open>re.match(r"^\d{4}-\d{2}-\d{2}$", s)\<close> of line 62.\<close>

definition match_iso_date :: "string \<Rightarrow> bool" where
  "match_iso_date s =
     (case strip_final_newline s of
        [y1, y2, y3, y4, h1, m1, m2, h2, d1, d2] \<Rightarrow>
          list_all is_digit [y1, y2, y3, y4, m1, m2, d1, d2] \<and> h1 = CHR ''-'' \<and> h2 = CHR ''-''
      | _ \<Rightarrow> False)"

text \<open>\<open>re.search(r"((?:20|19)\d{6})", filename)\<close> of line 71: the leftmost place where
  20 or 19 and six more digits stand; the result is group 1.\<close>

definition ymd8_here :: "string \<Rightarrow> bool" where
  "ymd8_here s =
     (8 \<le> length s \<and> (take 2 s = ''20'' \<or> take 2 s = ''19'') \<and> list_all is_digit (take 6 (drop 2 s)))"

fun search_ymd8 :: "string \<Rightarrow> string option" where
  "search_ymd8 [] = None"
| "search_ymd8 (c # cs) = (if ymd8_here (c # cs) then Some (take 8 (c # cs)) else search_ymd8 cs)"

text \<open>\<open>re.search(r"^((?:20|19)\d{2}-\d{2}-\d{2})$", filename)\<close> of line 77; group 1 is
  the first ten characters.\<close>

definition search_iso_name :: "string \<Rightarrow> string option" where
  "search_iso_name filename =
     (if match_iso_date filename \<and> (take 2 filename = ''20'' \<or> take 2 filename = ''19'')
      then Some (take 10 filename) else None)"

text \<open>Lines 70 to 84 of \<open>get_date_hint\<close>: the date from the file name. A ValueError of
  \<open>np.datetime64\<close> is caught and the function returns \<open>None\<close>.\<close>

definition date_from_filename :: "string \<Rightarrow> int option" where
  "date_from_filename filename =
     (case search_ymd8 filename of
        Some date_str \<Rightarrow> np_datetime64 (dashed date_str)
      | None \<Rightarrow>
          (case search_iso_name filename of
             Some date_str \<Rightarrow> np_datetime64 (dashed date_str)
           | None \<Rightarrow> None))"

text \<open>
  \<open>get_date_hint\<close> (lines 47 to 84). In the branch of line 62 the match object has no
  groups, so the unpacking of line 63, which stands outside the \<open>try\<close>, would raise
  ValueError.
\<close>

definition get_date_hint :: "(string \<rightharpoonup> attr_value) \<Rightarrow> string \<Rightarrow> error + int option" where
  "get_date_hint attrs filename =
     (case attrs ''date'' of
        None \<Rightarrow> Inr (date_from_filename filename)
      | Some v \<Rightarrow>
          (let date_str = filter is_digit (py_str v) in
           if length date_str = 8 then
             (case np_datetime64 (dashed date_str) of
                Some d \<Rightarrow> Inr (Some d)
              | None \<Rightarrow> Inr (date_from_filename filename))
           else if match_iso_date date_str then Inl ValueError_unpack
           else Inr (date_from_filename filename)))"

section \<open>campaign_granule.py\<close>

text \<open>\<open>os.path.basename\<close>: what follows the last slash. It raises TypeError on a value
  that is not a path.\<close>

definition basename :: "string \<Rightarrow> string" where
  "basename p = rev (takeWhile (\<lambda>c. c \<noteq> CHR ''/'') (rev p))"

text \<open>Lines 50 to 55 of \<open>CampaignGranule.__init__\<close>: the file name given to
  \<open>get_date_hint\<close>.\<close>

definition init_filename :: "(string \<rightharpoonup> attr_value) \<Rightarrow> string \<Rightarrow> error + string" where
  "init_filename attrs file_path =
     (case attrs ''filename'' of
        Some (TextAttr f) \<Rightarrow> Inr (basename f)
      | Some (OtherAttr f) \<Rightarrow> Inl TypeError
      | None \<Rightarrow> Inr (basename file_path))"

text \<open>Line 57: the date hint of the granule.\<close>

definition init_date_hint :: "(string \<rightharpoonup> attr_value) \<Rightarrow> string \<Rightarrow> error + int option" where
  "init_date_hint attrs file_path =
     (case init_filename attrs file_path of
        Inl e \<Rightarrow> Inl e
      | Inr filename \<Rightarrow> get_date_hint attrs filename)"

text \<open>Lines 47 to 60: the normalised time of the granule, from the attributes, the path
  and the dataset's \<open>time\<close> variable (\<open>None\<close> when the dataset has none).\<close>

definition CampaignGranule_init ::
  "(string \<rightharpoonup> attr_value) \<Rightarrow> string \<Rightarrow> time_var option \<Rightarrow> error + time_var" where
  "CampaignGranule_init attrs file_path ds_time =
     (case init_date_hint attrs file_path of
        Inl e \<Rightarrow> Inl e
      | Inr date_hint \<Rightarrow>
          (case ds_time of
             None \<Rightarrow> Inl (KeyError ''time'')
           | Some time_var \<Rightarrow> normalize_timestamps time_var date_hint))"

section \<open>numpy arrays of one dimension\<close>

definition bind_err :: "error + 'a \<Rightarrow> ('a \<Rightarrow> error + 'b) \<Rightarrow> error + 'b" where
  "bind_err m f = (case m of Inl e \<Rightarrow> Inl e | Inr x \<Rightarrow> f x)"

text \<open>\<open>np.repeat(a, n)\<close> repeats every element \<open>n\<close> times in place; \<open>np.tile(a, n)\<close>
  repeats the whole array \<open>n\<close> times.\<close>

definition np_repeat :: "'a list \<Rightarrow> nat \<Rightarrow> 'a list" where
  "np_repeat xs n = concat (map (replicate n) xs)"

definition np_tile :: "'a list \<Rightarrow> nat \<Rightarrow> 'a list" where
  "np_tile xs n = concat (replicate n xs)"

text \<open>
  An element-wise operation on two arrays of one dimension, with numpy's broadcasting:
  the lengths are equal, or one of them is 1 and that element meets every element of the
  other array; otherwise numpy raises ValueError.
\<close>

definition broadcast2 :: "('a \<Rightarrow> 'b \<Rightarrow> 'c) \<Rightarrow> 'a list \<Rightarrow> 'b list \<Rightarrow> error + 'c list" where
  "broadcast2 f xs ys =
     (if length xs = length ys then Inr (map (\<lambda>(x, y). f x y) (zip xs ys))
      else if length xs = 1 then Inr (map (\<lambda>y. f (hd xs) y) ys)
      else if length ys = 1 then Inr (map (\<lambda>x. f x (hd ys)) xs)
      else Inl ValueError_broadcast)"

text \<open>Indexing with an array of indices, \<open>a[idx]\<close> (IndexError on an index out of
  bounds), and with a boolean mask, \<open>a[mask]\<close> (IndexError when the lengths differ).\<close>

definition take_idx :: "'a list \<Rightarrow> nat list \<Rightarrow> error + 'a list" where
  "take_idx xs idx =
     (if list_all (\<lambda>i. i < length xs) idx then Inr (map (\<lambda>i. xs ! i) idx) else Inl IndexError)"

definition bool_index :: "'a list \<Rightarrow> bool list \<Rightarrow> error + 'a list" where
  "bool_index xs mask_arr =
     (if length mask_arr = length xs then Inr (map fst (filter snd (zip xs mask_arr))) else Inl IndexError)"

text \<open>
  What \<open>np.argsort(time)\<close> promises for its default kind (quicksort, which numpy
  documents as not stable): the result lists every index once, and the times read in
  that order do not decrease. \<open>stable_argsort\<close> is the one such result that keeps equal
  times in their original order, and \<open>reversing_argsort\<close> the one that puts equal
  times in the reverse of their original order.
\<close>

definition is_argsort :: "int list \<Rightarrow> nat list \<Rightarrow> bool" where
  "is_argsort ts idx = (mset idx = mset [0..<length ts] \<and> sorted (map (\<lambda>i. ts ! i) idx))"

definition stable_argsort :: "int list \<Rightarrow> nat list" where
  "stable_argsort ts = sort_key (\<lambda>i. ts ! i) [0..<length ts]"


section \<open>converters/point\_cloud\_converter.py\<close>

text \<open>
  The reflectivity grid is an array of two dimensions, \<open>g_num_col\<close> by \<open>g_num_row\<close>
  (the names of line 47), with its cells in row-major order as \<open>flatten\<close> gives them;
  a numpy array always has \<open>g_num_col * g_num_row\<close> cells (\<open>grid_ok\<close>).
  A dataset holds the variables \<open>convert\<close> reads, each \<open>None\<close> when the dataset
  has no variable of that name; the variables other than \<open>ref\<close> are arrays of one
  dimension. A granule is its dataset and the ticks of its \<open>normal_time\<close>, a
  datetime64[s] array: subtracting the epoch and casting to int64 (line 36) leaves the
  ticks as they are.
\<close>

record grid =
  g_num_col :: nat
  g_num_row :: nat
  g_cells :: "npfloat list"

definition grid_ok :: "grid \<Rightarrow> bool" where
  "grid_ok g = (length (g_cells g) = g_num_col g * g_num_row g)"

record dataset =
  ds_ref :: "grid option"
  ds_lat :: "npfloat list option"
  ds_lon :: "npfloat list option"
  ds_height :: "npfloat list option"
  ds_alt :: "npfloat list option"
  ds_roll :: "npfloat list option"
  ds_pitch :: "npfloat list option"
  ds_head :: "npfloat list option"
  ds_range :: "npfloat list option"

record granule =
  gr_normal_time :: "int list"
  gr_ds :: dataset

text \<open>The five parallel arrays of \<open>convert\<close>, between its steps.\<close>

record columns =
  c_lon :: "npfloat list"
  c_lat :: "npfloat list"
  c_alt :: "npfloat list"
  c_ref :: "npfloat list"
  c_time :: "int list"

text \<open>The PointCloud (lines 18 to 27): its five sequences. The back reference to the
  granule and the constant attributes are left out.\<close>

record point_cloud =
  pc_lat :: "npfloat list"
  pc_lon :: "npfloat list"
  pc_alt :: "npfloat list"
  pc_ref :: "npfloat list"
  pc_time :: "int list"

text \<open>\<open>ds[name]\<close> raises KeyError on a missing variable.\<close>

definition getitem :: "string \<Rightarrow> 'a option \<Rightarrow> error + 'a" where
  "getitem name v = (case v of None \<Rightarrow> Inl (KeyError name) | Some a \<Rightarrow> Inr a)"

text \<open>\<open>ds.get("height", ds.get("alt")).values\<close> (line 41): \<open>height\<close> when the dataset
  has it, else \<open>alt\<close>, else \<open>None\<close>, whose \<open>.values\<close> raises AttributeError.\<close>

definition get_height_or_alt :: "dataset \<Rightarrow> error + npfloat list" where
  "get_height_or_alt ds =
     (case ds_height ds of
        Some a \<Rightarrow> Inr a
      | None \<Rightarrow> (case ds_alt ds of Some a \<Rightarrow> Inr a | None \<Rightarrow> Inl AttributeError))"

definition deg2rad :: "npfloat \<Rightarrow> npfloat" where
  "deg2rad v = fdiv (fmul v (Fin pi)) (Fin 180)"

text \<open>\<open>down_vector\<close> (lines 11 to 16), on arrays.\<close>

definition down_vector ::
  "npfloat list \<Rightarrow> npfloat list \<Rightarrow> npfloat list
     \<Rightarrow> error + (npfloat list \<times> npfloat list \<times> npfloat list)" where
  "down_vector roll pitch head =
     bind_err (broadcast2 fmul (map fsin roll) (map fcos head)) (\<lambda>x1.
     bind_err (broadcast2 fmul (map fcos roll) (map fsin pitch)) (\<lambda>x2.
     bind_err (broadcast2 fmul x2 (map fsin head)) (\<lambda>x3.
     bind_err (broadcast2 fadd x1 x3) (\<lambda>x.
     bind_err (broadcast2 fmul (map (\<lambda>v. fneg (fsin v)) roll) (map fsin head)) (\<lambda>y1.
     bind_err (broadcast2 fmul (map fcos roll) (map fsin pitch)) (\<lambda>y2.
     bind_err (broadcast2 fmul y2 (map fcos head)) (\<lambda>y3.
     bind_err (broadcast2 fadd y1 y3) (\<lambda>y.
     bind_err (broadcast2 fmul (map (\<lambda>v. fneg (fcos v)) roll) (map fcos pitch)) (\<lambda>z.
     Inr (x, y, z))))))))))"

text \<open>Lines 59 to 66 of \<open>convert\<close>, on the flattened arrays: the corrected longitude,
  latitude and altitude.\<close>

definition project ::
  "npfloat list \<Rightarrow> npfloat list \<Rightarrow> npfloat list \<Rightarrow> npfloat list \<Rightarrow> npfloat list
     \<Rightarrow> npfloat list \<Rightarrow> npfloat list
     \<Rightarrow> error + (npfloat list \<times> npfloat list \<times> npfloat list)" where
  "project lon lat alt roll pitch head rad_range =
     bind_err (down_vector roll pitch head) (\<lambda>(x, y, z).
     bind_err (broadcast2 fdiv rad_range (map (\<lambda>v. fmul (Fin 111000) (fcos (deg2rad v))) lat)) (\<lambda>sx.
     bind_err (broadcast2 fmul x sx) (\<lambda>x'.
     bind_err (broadcast2 fmul y (map (\<lambda>r. fdiv r (Fin 111000)) rad_range)) (\<lambda>y'.
     bind_err (broadcast2 fmul z rad_range) (\<lambda>z'.
     bind_err (broadcast2 fadd (map fneg x') lon) (\<lambda>lon'.
     bind_err (broadcast2 fadd (map fneg y') lat) (\<lambda>lat'.
     bind_err (broadcast2 fadd z' alt) (\<lambda>alt'.
     Inr (lon', lat', alt')))))))))"

text \<open>Lines 38 to 45 of \<open>convert\<close>: the variables as read, the attitude turned from
  degrees into radians. The first missing variable raises.\<close>

record loaded =
  l_ref :: grid
  l_lat :: "npfloat list"
  l_lon :: "npfloat list"
  l_alt :: "npfloat list"
  l_roll :: "npfloat list"
  l_pitch :: "npfloat list"
  l_head :: "npfloat list"
  l_range :: "npfloat list"

definition load_vars :: "dataset \<Rightarrow> error + loaded" where
  "load_vars ds =
     bind_err (getitem ''ref'' (ds_ref ds)) (\<lambda>ref.
     bind_err (getitem ''lat'' (ds_lat ds)) (\<lambda>lat.
     bind_err (getitem ''lon'' (ds_lon ds)) (\<lambda>lon.
     bind_err (get_height_or_alt ds) (\<lambda>alt.
     bind_err (getitem ''roll'' (ds_roll ds)) (\<lambda>roll.
     bind_err (getitem ''pitch'' (ds_pitch ds)) (\<lambda>pitch.
     bind_err (getitem ''head'' (ds_head ds)) (\<lambda>head.
     bind_err (getitem ''range'' (ds_range ds)) (\<lambda>rad_range.
     Inr \<lparr>l_ref = ref, l_lat = lat, l_lon = lon, l_alt = alt,
          l_roll = map deg2rad roll, l_pitch = map deg2rad pitch,
          l_head = map deg2rad head, l_range = rad_range\<rparr>))))))))"

text \<open>Lines 35 to 66 of \<open>convert\<close>: the variables are read, flattened against the
  grid and projected.\<close>

definition convert_projected :: "granule \<Rightarrow> error + columns" where
  "convert_projected granule =
     (let time_unix = gr_normal_time granule in
      bind_err (load_vars (gr_ds granule)) (\<lambda>v.
      (let num_col = g_num_col (l_ref v); num_row = g_num_row (l_ref v) in
       bind_err (project (np_repeat (l_lon v) num_row) (np_repeat (l_lat v) num_row)
                   (np_repeat (l_alt v) num_row) (np_repeat (l_roll v) num_row)
                   (np_repeat (l_pitch v) num_row) (np_repeat (l_head v) num_row)
                   (np_tile (l_range v) num_col))
         (\<lambda>(lon', lat', alt').
            Inr \<lparr>c_lon = lon', c_lat = lat', c_alt = alt', c_ref = g_cells (l_ref v),
                 c_time = np_repeat time_unix num_row\<rparr>))))"

text \<open>Lines 68 to 73: every array is read in the order that \<open>np.argsort(time)\<close>
  returns.\<close>

definition sort_columns :: "(int list \<Rightarrow> nat list) \<Rightarrow> columns \<Rightarrow> error + columns" where
  "sort_columns argsort c =
     (let sort_idx = argsort (c_time c) in
      bind_err (take_idx (c_lon c) sort_idx) (\<lambda>lon.
      bind_err (take_idx (c_lat c) sort_idx) (\<lambda>lat.
      bind_err (take_idx (c_alt c) sort_idx) (\<lambda>alt.
      bind_err (take_idx (c_ref c) sort_idx) (\<lambda>ref.
      bind_err (take_idx (c_time c) sort_idx) (\<lambda>time.
      Inr \<lparr>c_lon = lon, c_lat = lat, c_alt = alt, c_ref = ref, c_time = time\<rparr>))))))"

text \<open>Lines 75 to 80: the samples with a finite reflectivity and a positive altitude are
  kept.\<close>

definition mask_columns :: "columns \<Rightarrow> error + columns" where
  "mask_columns c =
     bind_err (broadcast2 (\<lambda>a b. a \<and> b) (map isfinite (c_ref c))
                 (map (\<lambda>a. fless (Fin 0) a) (c_alt c))) (\<lambda>mask_arr.
     bind_err (bool_index (c_lon c) mask_arr) (\<lambda>lon.
     bind_err (bool_index (c_lat c) mask_arr) (\<lambda>lat.
     bind_err (bool_index (c_alt c) mask_arr) (\<lambda>alt.
     bind_err (bool_index (c_ref c) mask_arr) (\<lambda>ref.
     bind_err (bool_index (c_time c) mask_arr) (\<lambda>time.
     Inr \<lparr>c_lon = lon, c_lat = lat, c_alt = alt, c_ref = ref, c_time = time\<rparr>))))))"

text \<open>\<open>convert_sorted\<close> is \<open>convert\<close> up to line 73; \<open>convert\<close>
  (lines 31 to 93) takes the function that stands for \<open>np.argsort\<close>.\<close>

definition convert_sorted :: "(int list \<Rightarrow> nat list) \<Rightarrow> granule \<Rightarrow> error + columns" where
  "convert_sorted argsort granule = bind_err (convert_projected granule) (sort_columns argsort)"

definition convert :: "(int list \<Rightarrow> nat list) \<Rightarrow> granule \<Rightarrow> error + point_cloud" where
  "convert argsort granule =
     bind_err (convert_sorted argsort granule) (\<lambda>s.
     bind_err (mask_columns s) (\<lambda>c.
     Inr \<lparr>pc_lat = c_lat c, pc_lon = c_lon c, pc_alt = c_alt c, pc_ref = c_ref c,
          pc_time = c_time c\<rparr>))"

section \<open>Notions used to state the results about convert\<close>

text \<open>
  The shapes agree: the grid has its cells, the vectors read per sample have the grid's
  first dimension and the range has its second.
\<close>

definition consistent :: "loaded \<Rightarrow> bool" where
  "consistent v =
     (grid_ok (l_ref v)
      \<and> length (l_lat v) = g_num_col (l_ref v) \<and> length (l_lon v) = g_num_col (l_ref v)
      \<and> length (l_alt v) = g_num_col (l_ref v) \<and> length (l_roll v) = g_num_col (l_ref v)
      \<and> length (l_pitch v) = g_num_col (l_ref v) \<and> length (l_head v) = g_num_col (l_ref v)
      \<and> length (l_range v) = g_num_row (l_ref v))"

text \<open>The sample at index \<open>k\<close> of the projected arrays passes the filter of line 75;
  the indices that \<open>convert\<close> keeps, in the order of \<open>np.argsort\<close>; and the
  indices of an index array all lie inside the five arrays.\<close>

definition valid_at :: "columns \<Rightarrow> nat \<Rightarrow> bool" where
  "valid_at c k = (isfinite (c_ref c ! k) \<and> fless (Fin 0) (c_alt c ! k))"

definition retained :: "(int list \<Rightarrow> nat list) \<Rightarrow> columns \<Rightarrow> nat list" where
  "retained argsort c = filter (valid_at c) (argsort (c_time c))"

definition in_bounds :: "columns \<Rightarrow> nat list \<Rightarrow> bool" where
  "in_bounds c idx =
     list_all (\<lambda>i. i < length (c_lon c) \<and> i < length (c_lat c) \<and> i < length (c_alt c)
                  \<and> i < length (c_ref c) \<and> i < length (c_time c)) idx"

text \<open>Lines 13 to 15 and 60 to 66 for one sample: the down vector from roll, pitch and
  heading in radians, and the corrected position from the aircraft's position and the
  range.\<close>

definition down_x :: "npfloat \<Rightarrow> npfloat \<Rightarrow> npfloat \<Rightarrow> npfloat" where
  "down_x r p h = fadd (fmul (fsin r) (fcos h)) (fmul (fmul (fcos r) (fsin p)) (fsin h))"

definition down_y :: "npfloat \<Rightarrow> npfloat \<Rightarrow> npfloat \<Rightarrow> npfloat" where
  "down_y r p h = fadd (fmul (fneg (fsin r)) (fsin h)) (fmul (fmul (fcos r) (fsin p)) (fcos h))"

definition down_z :: "npfloat \<Rightarrow> npfloat \<Rightarrow> npfloat" where
  "down_z r p = fmul (fneg (fcos r)) (fcos p)"

definition sample_lon ::
  "npfloat \<Rightarrow> npfloat \<Rightarrow> npfloat \<Rightarrow> npfloat \<Rightarrow> npfloat \<Rightarrow> npfloat \<Rightarrow> npfloat" where
  "sample_lon lon lat r p h rg =
     fadd (fneg (fmul (down_x r p h) (fdiv rg (fmul (Fin 111000) (fcos (deg2rad lat)))))) lon"

definition sample_lat :: "npfloat \<Rightarrow> npfloat \<Rightarrow> npfloat \<Rightarrow> npfloat \<Rightarrow> npfloat \<Rightarrow> npfloat" where
  "sample_lat lat r p h rg = fadd (fneg (fmul (down_y r p h) (fdiv rg (Fin 111000)))) lat"

definition sample_alt :: "npfloat \<Rightarrow> npfloat \<Rightarrow> npfloat \<Rightarrow> npfloat \<Rightarrow> npfloat" where
  "sample_alt alt r p rg = fadd (fmul (down_z r p) rg) alt"


text \<open>
  A granule with a grid of two by two cells, one of them NaN, flown level at 1000 m
  over the point (0, 0): ranges of 100 m and 200 m put every corrected altitude above
  zero. \<open>nan_loaded\<close> is what \<open>load_vars\<close> reads from it.
\<close>

definition nan_granule :: granule where
  "nan_granule =
     \<lparr>gr_normal_time = [100, 200],
      gr_ds = \<lparr>ds_ref = Some \<lparr>g_num_col = 2, g_num_row = 2,
                               g_cells = [Fin 10, NaN, Fin 30, Fin 40]\<rparr>,
               ds_lat = Some [Fin 0, Fin 0], ds_lon = Some [Fin 0, Fin 0],
               ds_height = None, ds_alt = Some [Fin 1000, Fin 1000],
               ds_roll = Some [Fin 0, Fin 0], ds_pitch = Some [Fin 0, Fin 0],
               ds_head = Some [Fin 0, Fin 0], ds_range = Some [Fin 100, Fin 200]\<rparr>\<rparr>"

definition nan_loaded :: loaded where
  "nan_loaded =
     \<lparr>l_ref = \<lparr>g_num_col = 2, g_num_row = 2, g_cells = [Fin 10, NaN, Fin 30, Fin 40]\<rparr>,
      l_lat = [Fin 0, Fin 0], l_lon = [Fin 0, Fin 0], l_alt = [Fin 1000, Fin 1000],
      l_roll = [Fin 0, Fin 0], l_pitch = [Fin 0, Fin 0], l_head = [Fin 0, Fin 0],
      l_range = [Fin 100, Fin 200]\<rparr>"



text \<open>
  A granule with its along-track samples in another order: \<open>p\<close> lists, for every
  place in the new order, the index of the sample that goes there. The time and the
  vectors read per sample are picked in that order and so are the rows of the grid; the
  range stays as it is. \<open>permute_loaded\<close> is what \<open>load_vars\<close> reads from the
  permuted dataset.
\<close>

definition pick :: "nat list \<Rightarrow> 'a list \<Rightarrow> 'a list" where
  "pick p xs = map (\<lambda>i. xs ! i) p"






section \<open>Results about timeutils.py\<close>

lemma cast_s_Second_id: "map (cast_s Second) xs = xs"
  by (induction xs) simp_all

lemma fmax_less: "fless (fmax a b) (Fin r) \<longleftrightarrow> fless a (Fin r) \<and> fless b (Fin r)"
  by (cases a; cases b) auto

lemma fold_fmax_less:
  "fless (fold (\<lambda>v acc. fmax acc v) xs x) (Fin r)
     \<longleftrightarrow> fless x (Fin r) \<and> (\<forall>v\<in>set xs. fless v (Fin r))"
  by (induction xs arbitrary: x) (auto simp: fmax_less)

lemma fold_max_eq_Max:
  "fold (\<lambda>v acc. max acc v) xs (x::int) = Max (set (x # xs))"
proof -
  have "(\<lambda>v acc. max acc v) = (max :: int \<Rightarrow> int \<Rightarrow> int)"
    by (intro ext) (rule max.commute)
  then show ?thesis by (simp only: Max.set_eq_fold)
qed

lemma fsub_less_zero: "fless (fsub b a) (Fin 0) \<longleftrightarrow> fless b a"
  by (cases a; cases b) (auto simp: fsub_def)

lemma list_ex_zip_tl:
  "list_ex P (zip xs (tl xs)) \<longleftrightarrow> (\<exists>i. Suc i < length xs \<and> P (xs ! i, xs ! Suc i))"
proof (cases xs)
  case Nil
  then show ?thesis by simp
next
  case (Cons a ys)
  have "list_ex P (zip xs (tl xs)) \<longleftrightarrow> (\<exists>i < length (zip xs (tl xs)). P (zip xs (tl xs) ! i))"
    by (simp add: list_ex_length)
  also have "\<dots> \<longleftrightarrow> (\<exists>i. Suc i < length xs \<and> P (xs ! i, xs ! Suc i))"
    using Cons by (auto simp: nth_tl)
  finally show ?thesis .
qed

lemma list_ex_map: "list_ex P (map f xs) = list_ex (\<lambda>x. P (f x)) xs"
  by (induction xs) simp_all

lemma has_wraparound_float:
  "has_wraparound (FloatVals xs) \<longleftrightarrow> (\<exists>i. Suc i < length xs \<and> fless (xs ! Suc i) (xs ! i))"
  by (simp add: np_diff_float_def list_ex_map list_ex_zip_tl fsub_less_zero)

lemma has_wraparound_int:
  "has_wraparound (IntVals xs) \<longleftrightarrow> (\<exists>i. Suc i < length xs \<and> wrap64 (xs ! Suc i - xs ! i) < 0)"
  by (simp add: np_diff_int_def list_ex_map list_ex_zip_tl)

lemma wrap64_id: "- (2 ^ 63) \<le> x \<Longrightarrow> x < 2 ^ 63 \<Longrightarrow> wrap64 x = x"
  by (simp add: wrap64_def)





lemmas time_eval =
  normalize_timestamps_def detect_time_var_type_def detect_case3_def classify_float_def
  classify_int_def wrap_def np_diff_float_def np_diff_int_def fsub_def dt_add_def NaT_def
  wrap64_def trunc_def




lemma classify_float_eq:
  assumes "xs \<noteq> []"
  shows "classify_float xs =
     Inr (if \<forall>v\<in>set xs. fless v (Fin 25) then SinceMidnight Hours
          else if \<forall>v\<in>set xs. fless v (Fin 86400) then SinceMidnight Seconds
          else NumericTime)"
proof -
  from assms obtain a as where xs: "xs = a # as" by (cases xs) auto
  show ?thesis
    by (simp add: classify_float_def xs fold_fmax_less)
qed

lemma classify_int_eq:
  assumes "ys \<noteq> []"
  shows "classify_int ys =
     Inr (if Max (set ys) < 25 then SinceMidnight Hours
          else if Max (set ys) < 86400 then SinceMidnight Seconds
          else NumericTime)"
proof -
  from assms obtain a as where ys: "ys = a # as" by (cases ys) auto
  show ?thesis
    by (simp add: classify_int_def ys fold_max_eq_Max)
qed

lemma detect_float:
  assumes "tv_units_since tv = None" "tv_ndim tv = 1" "tv_values tv = FloatVals xs" "xs \<noteq> []"
  shows "detect_time_var_type tv =
     Inr \<lparr>ti_type = (if \<forall>v\<in>set xs. fless v (Fin 25) then SinceMidnight Hours
                     else if \<forall>v\<in>set xs. fless v (Fin 86400) then SinceMidnight Seconds
                     else NumericTime),
          ti_base_time = None, ti_time_array = FloatVals xs,
          ti_wrapped = (\<exists>i. Suc i < length xs \<and> fless (xs ! Suc i) (xs ! i))\<rparr>"
  using assms(1-3)
  by (simp add: detect_time_var_type_def detect_case3_def classify_float_eq[OF assms(4)]
      has_wraparound_float Let_def del: has_wraparound.simps)

lemma detect_int:
  assumes "tv_units_since tv = None" "tv_ndim tv = 1" "tv_values tv = IntVals ys" "ys \<noteq> []"
  shows "detect_time_var_type tv =
     Inr \<lparr>ti_type = (if Max (set ys) < 25 then SinceMidnight Hours
                     else if Max (set ys) < 86400 then SinceMidnight Seconds
                     else NumericTime),
          ti_base_time = None, ti_time_array = IntVals ys,
          ti_wrapped = (\<exists>i. Suc i < length ys \<and> wrap64 (ys ! Suc i - ys ! i) < 0)\<rparr>"
  using assms(1-3)
  by (simp add: detect_time_var_type_def detect_case3_def classify_int_eq[OF assms(4)]
      has_wraparound_int Let_def del: has_wraparound.simps)

lemma backward_step_int:
  assumes "\<forall>v\<in>set ys. - (2 ^ 62) \<le> v \<and> v < 2 ^ 62"
  shows "(\<exists>i. Suc i < length ys \<and> wrap64 (ys ! Suc i - ys ! i) < 0)
           = (\<exists>i. Suc i < length ys \<and> ys ! Suc i < ys ! i)"
proof -
  have "wrap64 (ys ! Suc i - ys ! i) = ys ! Suc i - ys ! i" if "Suc i < length ys" for i
  proof -
    from that have "ys ! Suc i \<in> set ys" "ys ! i \<in> set ys" by simp_all
    with assms have "- (2 ^ 62) \<le> ys ! Suc i" "ys ! Suc i < 2 ^ 62"
      "- (2 ^ 62) \<le> ys ! i" "ys ! i < 2 ^ 62" by blast+
    then show ?thesis by (intro wrap64_id) simp_all
  qed
  then show ?thesis by auto
qed

text \<open>
  C9. Normalisation is idempotent on absolute-time input: a datetime64 time variable is
  cast to second precision by the first call, and a second call (with any date hint)
  returns the first call's result unchanged.
\<close>

theorem normalize_timestamps_idempotent:
  "\<exists>out. normalize_timestamps (tv\<lparr>tv_values := DatetimeVals u xs\<rparr>) d = Inr out
      \<and> tv_values out = DatetimeVals Second (map (cast_s u) xs)
      \<and> normalize_timestamps out d' = Inr out"
  by (simp add: normalize_timestamps_def detect_time_var_type_def wrap_def cast_s_Second_id)

text \<open>
  C1 (the code does not do this). For hours or seconds since midnight with a date hint,
  the claim has every sample after a backward step moved one day forward. At the hours
  23.9, 0.1, 0.5 with the date hint 2017-05-17 (day 17303, midnight at 1494979200 s),
  \<open>normalize_timestamps\<close> returns 23:54, 00:06 and 00:30 of the same day, while
  \<open>resolve_time_hours\<close>, which it never calls, returns 23:54 of that day and 00:06
  and 00:30 of the next.
\<close>

theorem normalize_timestamps_no_day_offset:
  "normalize_timestamps
     \<lparr>tv_values = FloatVals [Fin (239 / 10), Fin (1 / 10), Fin (1 / 2)], tv_ndim = 1,
      tv_units_since = None, tv_normalized = False\<rparr> (Some 17303)
   = Inr \<lparr>tv_values = DatetimeVals Second
             [1494979200 + 86040, 1494979200 + 360, 1494979200 + 1800],
          tv_ndim = 1, tv_units_since = None, tv_normalized = True\<rparr>
   \<and> resolve_time_hours [Fin (239 / 10), Fin (1 / 10), Fin (1 / 2)] 17303
   = [1494979200 + 86040, 1494979200 + 86400 + 360, 1494979200 + 86400 + 1800]"
  by (simp add: time_eval resolve_time_hours_def wrap_points_def shift_from_def upt_rec)



text \<open>
  C6, as amended. For a time array of one dimension with no usable units reference that
  is not empty and whose dtype is float or signed integer: the type is hours since
  midnight when every value is below 25 (the maximum is below 25; a NaN is below
  nothing), seconds since midnight when that fails and every value is below 86400, and
  numeric-time otherwise; \<open>wrapped\<close> is true exactly when some difference of
  consecutive values, taken in the array's own arithmetic, is negative. For floats that
  is exactly when some value is less than its predecessor, and for int64 as well when
  the values lie between \<open>-2^62\<close> and \<open>2^62\<close>, where the difference cannot wrap
  around.
\<close>

theorem detect_time_var_type_numeric:
  "tv_units_since tv = None \<Longrightarrow> tv_ndim tv = 1 \<Longrightarrow>
   (tv_values tv = FloatVals xs \<longrightarrow> xs \<noteq> [] \<longrightarrow>
      detect_time_var_type tv =
        Inr \<lparr>ti_type = (if \<forall>v\<in>set xs. fless v (Fin 25) then SinceMidnight Hours
                        else if \<forall>v\<in>set xs. fless v (Fin 86400) then SinceMidnight Seconds
                        else NumericTime),
             ti_base_time = None, ti_time_array = FloatVals xs,
             ti_wrapped = (\<exists>i. Suc i < length xs \<and> fless (xs ! Suc i) (xs ! i))\<rparr>)
   \<and> (tv_values tv = IntVals ys \<longrightarrow> ys \<noteq> [] \<longrightarrow>
      detect_time_var_type tv =
        Inr \<lparr>ti_type = (if Max (set ys) < 25 then SinceMidnight Hours
                        else if Max (set ys) < 86400 then SinceMidnight Seconds
                        else NumericTime),
             ti_base_time = None, ti_time_array = IntVals ys,
             ti_wrapped = (\<exists>i. Suc i < length ys \<and> wrap64 (ys ! Suc i - ys ! i) < 0)\<rparr>)
   \<and> ((\<forall>v\<in>set ys. - (2 ^ 62) \<le> v \<and> v < 2 ^ 62) \<longrightarrow>
        (\<exists>i. Suc i < length ys \<and> wrap64 (ys ! Suc i - ys ! i) < 0)
          = (\<exists>i. Suc i < length ys \<and> ys ! Suc i < ys ! i))"
  using detect_float[of tv xs] detect_int[of tv ys] backward_step_int[of ys]
  by blast

text \<open>
  C6, a witness: the hours 23.9, 0.1, 0.5 are hours since midnight and wrapped, and the
  int64 seconds 100, 86000, 5 are seconds since midnight and wrapped.
\<close>

theorem detect_time_var_type_numeric_witness:
  "detect_time_var_type
     \<lparr>tv_values = FloatVals [Fin (239 / 10), Fin (1 / 10), Fin (1 / 2)], tv_ndim = 1,
      tv_units_since = None, tv_normalized = False\<rparr>
     = Inr \<lparr>ti_type = SinceMidnight Hours, ti_base_time = None,
            ti_time_array = FloatVals [Fin (239 / 10), Fin (1 / 10), Fin (1 / 2)],
            ti_wrapped = True\<rparr>
   \<and> detect_time_var_type
     \<lparr>tv_values = IntVals [100, 86000, 5], tv_ndim = 1,
      tv_units_since = None, tv_normalized = False\<rparr>
     = Inr \<lparr>ti_type = SinceMidnight Seconds, ti_base_time = None,
            ti_time_array = IntVals [100, 86000, 5], ti_wrapped = True\<rparr>"
proof -
  let ?f = "\<lparr>tv_values = FloatVals [Fin (239 / 10), Fin (1 / 10), Fin (1 / 2)], tv_ndim = 1,
      tv_units_since = None, tv_normalized = False\<rparr>"
  let ?g = "\<lparr>tv_values = IntVals [100, 86000, 5], tv_ndim = 1,
      tv_units_since = None, tv_normalized = False\<rparr>"
  have w1: "\<exists>i. Suc i < length [Fin (239 / 10), Fin (1 / 10), Fin (1 / 2)]
              \<and> fless ([Fin (239 / 10), Fin (1 / 10), Fin (1 / 2)] ! Suc i)
                      ([Fin (239 / 10), Fin (1 / 10), Fin (1 / 2)] ! i)"
    by (rule exI[of _ 0]) simp
  have w2: "\<exists>i. Suc i < length [100, 86000, 5 :: int]
              \<and> wrap64 ([100, 86000, 5] ! Suc i - [100, 86000, 5] ! i) < 0"
    by (rule exI[of _ 1]) (simp add: wrap64_def)
  have "detect_time_var_type ?f = Inr \<lparr>ti_type = SinceMidnight Hours, ti_base_time = None,
            ti_time_array = FloatVals [Fin (239 / 10), Fin (1 / 10), Fin (1 / 2)],
            ti_wrapped = True\<rparr>"
    using detect_time_var_type_numeric[of ?f "[Fin (239 / 10), Fin (1 / 10), Fin (1 / 2)]" "[]"] w1
    by simp
  moreover have "detect_time_var_type ?g = Inr \<lparr>ti_type = SinceMidnight Seconds,
            ti_base_time = None, ti_time_array = IntVals [100, 86000, 5], ti_wrapped = True\<rparr>"
    using detect_time_var_type_numeric[of ?g "[]" "[100, 86000, 5]"] w2
    by simp
  ultimately show ?thesis by simp
qed

text \<open>
  C6 as stated fails on two purely numeric sequences of one dimension without units:
  the empty float array is not classified (\<open>np.max\<close> raises ValueError), and the
  unsigned integers 1, 2, 3, whose maximum is below 25, get the type unknown, because
  line 139 admits the dtype kinds f and i only.
\<close>

theorem detect_time_var_type_counterexample:
  "detect_time_var_type
     \<lparr>tv_values = FloatVals [], tv_ndim = 1, tv_units_since = None, tv_normalized = False\<rparr>
     = Inl ValueError_zero_size
   \<and> detect_time_var_type
     \<lparr>tv_values = UIntVals [1, 2, 3], tv_ndim = 1, tv_units_since = None,
      tv_normalized = False\<rparr>
     = Inr \<lparr>ti_type = Unknown, ti_base_time = None, ti_time_array = UIntVals [1, 2, 3],
            ti_wrapped = False\<rparr>"
  by (simp add: time_eval)

section \<open>Results about the date hint\<close>

lemma newline_not_digit: "\<not> is_digit (CHR 0x0A)"
  by (simp add: is_digit_def)

lemma hyphen_not_digit: "\<not> is_digit (CHR ''-'')"
  by (simp add: is_digit_def)

lemma strip_final_newline_digits:
  "list_all is_digit s \<Longrightarrow> strip_final_newline s = s"
proof (cases "s = []")
  case True
  then show ?thesis by (simp add: strip_final_newline_def)
next
  case False
  assume "list_all is_digit s"
  with False have "is_digit (last s)"
    by (simp add: list_all_iff)
  with newline_not_digit have "last s \<noteq> CHR 0x0A" by metis
  then show ?thesis by (simp add: strip_final_newline_def)
qed

lemma match_iso_date_digits: "list_all is_digit s \<Longrightarrow> \<not> match_iso_date s"
  using hyphen_not_digit
  by (auto simp: match_iso_date_def strip_final_newline_digits split: list.splits)

lemma get_date_hint_Inr: "\<exists>r. get_date_hint attrs filename = Inr r"
proof (cases "attrs ''date''")
  case None
  then show ?thesis by (simp add: get_date_hint_def)
next
  case (Some v)
  have "list_all is_digit (filter is_digit (py_str v))"
    by (simp add: list_all_iff)
  then have "\<not> match_iso_date (filter is_digit (py_str v))"
    by (rule match_iso_date_digits)
  with Some show ?thesis
    by (simp add: get_date_hint_def Let_def split: option.splits)
qed

lemma ymd8_here_digit: "ymd8_here s \<Longrightarrow> list_ex is_digit s"
proof -
  assume h: "ymd8_here s"
  then obtain c cs where s: "s = c # cs"
    by (cases s) (auto simp: ymd8_here_def)
  with h have "c = CHR ''2'' \<or> c = CHR ''1''"
    by (cases cs) (auto simp: ymd8_here_def)
  then have "is_digit c" by (auto simp: is_digit_def)
  with s show ?thesis by simp
qed

lemma search_ymd8_digit: "search_ymd8 s = Some r \<Longrightarrow> list_ex is_digit s"
proof (induction s)
  case Nil
  then show ?case by simp
next
  case (Cons c cs)
  show ?case
  proof (cases "ymd8_here (c # cs)")
    case True
    then show ?thesis by (rule ymd8_here_digit)
  next
    case False
    with Cons show ?thesis by simp
  qed
qed

lemma search_iso_name_digit: "search_iso_name s = Some r \<Longrightarrow> list_ex is_digit s"
proof -
  assume "search_iso_name s = Some r"
  then have "take 2 s = ''20'' \<or> take 2 s = ''19''"
    by (auto simp: search_iso_name_def split: if_splits)
  then obtain c cs where s: "s = c # cs" and "c = CHR ''2'' \<or> c = CHR ''1''"
    by (cases s) auto
  then have "is_digit c" by (auto simp: is_digit_def)
  with s show ?thesis by simp
qed

lemma date_from_filename_no_digit:
  "\<not> list_ex is_digit filename \<Longrightarrow> date_from_filename filename = None"
  using search_ymd8_digit[of filename] search_iso_name_digit[of filename]
  by (auto simp: date_from_filename_def split: option.splits)

lemmas date_eval =
  get_date_hint_def date_from_filename_def ymd8_here_def is_digit_def dashed_def
  np_datetime64_def digits_val_def days_in_month_def leap_year_def days_from_civil_def

lemma get_date_hint_example_filename: "get_date_hint Map.empty ''20170517_flight.nc'' = Inr (Some (days_from_civil 2017 5 17))"
  by (simp add: date_eval)

lemma get_date_hint_example_attr: "get_date_hint (Map.empty(''date'' \<mapsto> TextAttr ''2017-05-17'')) filename = Inr (Some (days_from_civil 2017 5 17))"
  by (simp add: date_eval)

lemma days_from_civil_example: "days_from_civil 2017 5 17 = 17303"
  by (simp add: days_from_civil_def)

lemma init_date_hint_example_attr: "init_date_hint (Map.empty(''filename'' \<mapsto> TextAttr ''/data/20170517_x.nc'')) ''/tmp/20180101_y.nc''
   = Inr (Some (days_from_civil 2017 5 17))"
  by (simp add: init_date_hint_def init_filename_def basename_def date_eval)

lemma init_date_hint_example_path: "init_date_hint Map.empty ''/tmp/20180101_y.nc''
   = Inr (Some (days_from_civil 2018 1 1))"
  by (simp add: init_date_hint_def init_filename_def basename_def date_eval)

text \<open>
  C7. \<open>get_date_hint\<close> never raises, whatever the attributes and the file name. The
  \<open>date\<close> attribute is tried first: when its digits are eight and form a date, that
  date is the result whatever the file name is; in every other case (no \<open>date\<close>
  attribute, not eight digits, not a calendar date) the result is what the file name
  gives, which is \<open>None\<close> for a file name without digits. So
  \<open>get_date_hint({}, "20170517_flight.nc")\<close> is 2017-05-17 (day 17303 from
  1970-01-01), \<open>get_date_hint({"date": "2017-05-17"}, filename)\<close> is 2017-05-17 for
  every file name, and with no \<open>date\<close> attribute and no digit in the file name the
  result is \<open>None\<close>.
\<close>

theorem get_date_hint_never_raises:
  "(\<exists>r. get_date_hint attrs filename = Inr r)
   \<and> (attrs ''date'' = Some v \<longrightarrow> length (filter is_digit (py_str v)) = 8 \<longrightarrow>
        np_datetime64 (dashed (filter is_digit (py_str v))) = Some d \<longrightarrow>
        get_date_hint attrs filename = Inr (Some d))
   \<and> (attrs ''date'' = None
        \<or> (\<exists>w. attrs ''date'' = Some w
             \<and> (length (filter is_digit (py_str w)) \<noteq> 8
                  \<or> np_datetime64 (dashed (filter is_digit (py_str w))) = None)) \<longrightarrow>
        get_date_hint attrs filename = Inr (date_from_filename filename))
   \<and> (\<not> list_ex is_digit filename \<longrightarrow> date_from_filename filename = None)
   \<and> (attrs ''date'' = None \<longrightarrow> \<not> list_ex is_digit filename \<longrightarrow>
        get_date_hint attrs filename = Inr None)
   \<and> get_date_hint Map.empty ''20170517_flight.nc'' = Inr (Some (days_from_civil 2017 5 17))
   \<and> get_date_hint (Map.empty(''date'' \<mapsto> TextAttr ''2017-05-17'')) filename
        = Inr (Some (days_from_civil 2017 5 17))
   \<and> days_from_civil 2017 5 17 = 17303"
proof -
  have a: "\<exists>r. get_date_hint attrs filename = Inr r"
    by (rule get_date_hint_Inr)
  have b: "attrs ''date'' = Some v \<longrightarrow> length (filter is_digit (py_str v)) = 8 \<longrightarrow>
        np_datetime64 (dashed (filter is_digit (py_str v))) = Some d \<longrightarrow>
        get_date_hint attrs filename = Inr (Some d)"
    by (simp add: get_date_hint_def)
  have dig: "\<not> match_iso_date (filter is_digit s)" for s
    by (rule match_iso_date_digits) (simp add: list_all_iff)
  have c: "attrs ''date'' = None
        \<or> (\<exists>w. attrs ''date'' = Some w
             \<and> (length (filter is_digit (py_str w)) \<noteq> 8
                  \<or> np_datetime64 (dashed (filter is_digit (py_str w))) = None)) \<longrightarrow>
        get_date_hint attrs filename = Inr (date_from_filename filename)"
    by (auto simp: get_date_hint_def Let_def dig)
  have d: "\<not> list_ex is_digit filename \<longrightarrow> date_from_filename filename = None"
    by (simp add: date_from_filename_no_digit)
  have e: "attrs ''date'' = None \<longrightarrow> \<not> list_ex is_digit filename \<longrightarrow>
        get_date_hint attrs filename = Inr None"
    by (simp add: get_date_hint_def date_from_filename_no_digit)
  show ?thesis
    using a b c d e get_date_hint_example_filename get_date_hint_example_attr[of filename] days_from_civil_example by blast
qed

text \<open>
  C7, a witness: a numeric \<open>date\<close> attribute 20170517 wins over the date in the file
  name; the attribute 2017-13-45 is no date, so the file name decides; and without an
  attribute or digits the result is \<open>None\<close>.
\<close>

theorem get_date_hint_never_raises_witness:
  "get_date_hint (Map.empty(''date'' \<mapsto> OtherAttr ''20170517'')) ''flight_20180101.nc'' = Inr (Some 17303)
   \<and> get_date_hint (Map.empty(''date'' \<mapsto> TextAttr ''2017-13-45'')) ''flight_20180101.nc''
       = Inr (date_from_filename ''flight_20180101.nc'')
   \<and> get_date_hint Map.empty ''flight.nc'' = Inr None"
proof -
  let ?a = "Map.empty(''date'' \<mapsto> OtherAttr ''20170517'')"
  let ?b = "Map.empty(''date'' \<mapsto> TextAttr ''2017-13-45'')"
  have h1: "?a ''date'' = Some (OtherAttr ''20170517'')" by simp
  have h2: "length (filter is_digit (py_str (OtherAttr ''20170517''))) = 8"
    by (simp add: is_digit_def)
  have h3: "np_datetime64 (dashed (filter is_digit (py_str (OtherAttr ''20170517'')))) = Some 17303"
    by (simp add: date_eval)
  have h4: "?b ''date'' = None \<or> (\<exists>w. ?b ''date'' = Some w
             \<and> (length (filter is_digit (py_str w)) \<noteq> 8
                  \<or> np_datetime64 (dashed (filter is_digit (py_str w))) = None))"
    by (simp add: date_eval)
  have h5: "\<not> list_ex is_digit ''flight.nc''" by (simp add: is_digit_def)
  have h6: "Map.empty ''date'' = (None :: attr_value option)" by simp
  from get_date_hint_never_raises[of ?a "''flight_20180101.nc''" "OtherAttr ''20170517''" 17303] h1 h2 h3
  have r1: "get_date_hint ?a ''flight_20180101.nc'' = Inr (Some 17303)" by blast
  from get_date_hint_never_raises[of ?b "''flight_20180101.nc''"] h4
  have r2: "get_date_hint ?b ''flight_20180101.nc'' = Inr (date_from_filename ''flight_20180101.nc'')"
    by blast
  from get_date_hint_never_raises[of Map.empty "''flight.nc''"] h5 h6
  have r3: "get_date_hint Map.empty ''flight.nc'' = Inr None" by blast
  from r1 r2 r3 show ?thesis by simp
qed

text \<open>
  C10. In \<open>CampaignGranule.__init__\<close> the file name given to \<open>get_date_hint\<close> is
  the basename of the \<open>filename\<close> attribute when the dataset has one, and the
  basename of the constructor's path only when it has none (an attribute that is not
  text makes \<open>os.path.basename\<close> raise TypeError). With the attribute present
  the path plays no part in the file name or in the date hint, so a date in the
  attribute takes precedence over a date in the path: with the attribute
  \<open>/data/20170517_x.nc\<close> and the path \<open>/tmp/20180101_y.nc\<close> the hint is 2017-05-17,
  and without the attribute it is 2018-01-01.
\<close>

theorem init_filename_precedence:
  "(attrs ''filename'' = None \<longrightarrow>
      init_filename attrs file_path = Inr (basename file_path)
      \<and> init_date_hint attrs file_path = get_date_hint attrs (basename file_path))
   \<and> (attrs ''filename'' = Some (TextAttr f) \<longrightarrow>
      init_filename attrs file_path = Inr (basename f)
      \<and> init_date_hint attrs file_path = get_date_hint attrs (basename f))
   \<and> (attrs ''filename'' = Some (OtherAttr f) \<longrightarrow>
      init_filename attrs file_path = Inl TypeError
      \<and> init_date_hint attrs file_path = Inl TypeError)
   \<and> (attrs ''filename'' \<noteq> None \<longrightarrow>
      init_filename attrs file_path = init_filename attrs other_path
      \<and> init_date_hint attrs file_path = init_date_hint attrs other_path)
   \<and> init_date_hint (Map.empty(''filename'' \<mapsto> TextAttr ''/data/20170517_x.nc''))
        ''/tmp/20180101_y.nc'' = Inr (Some (days_from_civil 2017 5 17))
   \<and> init_date_hint Map.empty ''/tmp/20180101_y.nc'' = Inr (Some (days_from_civil 2018 1 1))"
  using init_date_hint_example_attr init_date_hint_example_path
  by (auto simp: init_filename_def init_date_hint_def split: option.splits attr_value.splits)

text \<open>C10, a witness: the file names chosen with and without the attribute, and a date
  hint that does not change with the path.\<close>

theorem init_filename_precedence_witness:
  "init_filename (Map.empty(''filename'' \<mapsto> TextAttr ''/data/20170517_x.nc'')) ''/tmp/20180101_y.nc''
     = Inr ''20170517_x.nc''
   \<and> init_filename Map.empty ''/tmp/20180101_y.nc'' = Inr ''20180101_y.nc''
   \<and> init_date_hint (Map.empty(''filename'' \<mapsto> TextAttr ''/data/20170517_x.nc'')) ''/tmp/20180101_y.nc''
     = init_date_hint (Map.empty(''filename'' \<mapsto> TextAttr ''/data/20170517_x.nc'')) ''elsewhere.nc''"
proof -
  let ?a = "Map.empty(''filename'' \<mapsto> TextAttr ''/data/20170517_x.nc'')"
  have h1: "?a ''filename'' = Some (TextAttr ''/data/20170517_x.nc'')" by simp
  have h2: "Map.empty ''filename'' = (None :: attr_value option)" by simp
  have h3: "?a ''filename'' \<noteq> None" by simp
  from init_filename_precedence[where attrs = ?a and f = "''/data/20170517_x.nc''"
      and file_path = "''/tmp/20180101_y.nc''"] h1
  have r1: "init_filename ?a ''/tmp/20180101_y.nc'' = Inr (basename ''/data/20170517_x.nc'')"
    by blast
  from init_filename_precedence[where attrs = Map.empty and file_path = "''/tmp/20180101_y.nc''"] h2
  have r2: "init_filename Map.empty ''/tmp/20180101_y.nc'' = Inr (basename ''/tmp/20180101_y.nc'')"
    by blast
  from init_filename_precedence[where attrs = ?a and file_path = "''/tmp/20180101_y.nc''"
      and other_path = "''elsewhere.nc''"] h3
  have r3: "init_date_hint ?a ''/tmp/20180101_y.nc'' = init_date_hint ?a ''elsewhere.nc''"
    by blast
  from r1 r2 r3 show ?thesis by (simp add: basename_def)
qed

section \<open>Results about numpy arrays and the steps of convert\<close>

lemma bind_err_Inr [simp]: "bind_err (Inr x) f = f x"
  by (simp add: bind_err_def)

lemma bind_err_Inl [simp]: "bind_err (Inl e) f = Inl e"
  by (simp add: bind_err_def)

lemma bind_err_eq_Inr:
  "bind_err m f = Inr y \<longleftrightarrow> (\<exists>x. m = Inr x \<and> f x = Inr y)"
  by (cases m) simp_all

lemma length_np_repeat [simp]: "length (np_repeat xs n) = length xs * n"
  by (induction xs) (simp_all add: np_repeat_def)

lemma length_np_tile [simp]: "length (np_tile xs n) = n * length xs"
  by (induction n) (simp_all add: np_tile_def)

lemma nth_np_repeat: "k < length xs * n \<Longrightarrow> np_repeat xs n ! k = xs ! (k div n)"
proof (induction xs arbitrary: k)
  case Nil
  then show ?case by simp
next
  case (Cons x xs)
  have r: "np_repeat (x # xs) n = replicate n x @ np_repeat xs n"
    by (simp add: np_repeat_def)
  show ?case
  proof (cases "k < n")
    case True
    then show ?thesis by (simp add: r nth_append)
  next
    case False
    then have kn: "n \<le> k" by simp
    from Cons.prems have "k - n < length xs * n" using kn by simp
    then have "np_repeat xs n ! (k - n) = xs ! ((k - n) div n)" by (rule Cons.IH)
    moreover have "k div n = Suc ((k - n) div n)"
      using kn Cons.prems by (cases "n = 0") (simp_all add: le_div_geq)
    ultimately show ?thesis using False by (simp add: r nth_append)
  qed
qed

lemma nth_np_tile: "k < n * length xs \<Longrightarrow> np_tile xs n ! k = xs ! (k mod length xs)"
proof (induction n arbitrary: k)
  case 0
  then show ?case by simp
next
  case (Suc n)
  have r: "np_tile xs (Suc n) = xs @ np_tile xs n"
    by (simp add: np_tile_def)
  show ?case
  proof (cases "k < length xs")
    case True
    then show ?thesis by (simp add: r nth_append)
  next
    case False
    then have kn: "length xs \<le> k" by simp
    from Suc.prems have "k - length xs < n * length xs" using kn by simp
    then have "np_tile xs n ! (k - length xs) = xs ! ((k - length xs) mod length xs)"
      by (rule Suc.IH)
    moreover have "(k - length xs) mod length xs = k mod length xs"
      using kn by (simp add: le_mod_geq)
    ultimately show ?thesis using False by (simp add: r nth_append)
  qed
qed

lemma broadcast2_same:
  "length xs = length ys \<Longrightarrow> broadcast2 f xs ys = Inr (map (\<lambda>(x, y). f x y) (zip xs ys))"
  by (simp add: broadcast2_def)




lemma take_idx_Inr:
  "take_idx xs idx = Inr ys \<longleftrightarrow> (\<forall>i\<in>set idx. i < length xs) \<and> ys = map (\<lambda>i. xs ! i) idx"
  by (auto simp: take_idx_def list_all_iff)

lemma bool_index_Inr:
  "bool_index xs m = Inr ys \<longleftrightarrow> length m = length xs \<and> ys = map fst (filter snd (zip xs m))"
  by (auto simp: bool_index_def)

lemma is_argsort_set: "is_argsort ts idx \<Longrightarrow> set idx = {0..<length ts}"
proof -
  assume "is_argsort ts idx"
  then have "mset idx = mset [0..<length ts]" unfolding is_argsort_def by (rule conjunct1)
  then have "set idx = set [0..<length ts]" by (rule mset_eq_setD)
  then show ?thesis by simp
qed



lemma stable_argsort_ok: "is_argsort ts (stable_argsort ts)"
  unfolding is_argsort_def stable_argsort_def by (simp del: mset_upt)


lemma sort_columns_Inr:
  "sort_columns a c = Inr s \<longleftrightarrow>
     in_bounds c (a (c_time c))
     \<and> s = \<lparr>c_lon = map (\<lambda>i. c_lon c ! i) (a (c_time c)),
            c_lat = map (\<lambda>i. c_lat c ! i) (a (c_time c)),
            c_alt = map (\<lambda>i. c_alt c ! i) (a (c_time c)),
            c_ref = map (\<lambda>i. c_ref c ! i) (a (c_time c)),
            c_time = map (\<lambda>i. c_time c ! i) (a (c_time c))\<rparr>"
  by (auto simp: sort_columns_def Let_def bind_err_eq_Inr take_idx_Inr in_bounds_def list_all_iff)


lemma filter_snd_zip_map:
  "map fst (filter snd (zip (map f xs) ms)) = map f (map fst (filter snd (zip xs ms)))"
proof (induction xs arbitrary: ms)
  case Nil
  then show ?case by simp
next
  case (Cons x xs)
  then show ?case by (cases ms) simp_all
qed

lemma filter_snd_zip_self: "map fst (filter snd (zip xs (map P xs))) = filter P xs"
  by (induction xs) simp_all

lemma bool_index_map:
  "bool_index (map f idx) (map P idx) = Inr (map f (filter P idx))"
  by (simp add: bool_index_def filter_snd_zip_map filter_snd_zip_self)

lemma mask_of_sorted:
  "broadcast2 (\<lambda>a b. a \<and> b) (map isfinite (map (\<lambda>i. c_ref c ! i) idx))
       (map (\<lambda>a. fless (Fin 0) a) (map (\<lambda>i. c_alt c ! i) idx))
     = Inr (map (valid_at c) idx)"
proof -
  have "map (\<lambda>(a, b). a \<and> b)
       (zip (map isfinite (map (\<lambda>i. c_ref c ! i) idx))
            (map (\<lambda>a. fless (Fin 0) a) (map (\<lambda>i. c_alt c ! i) idx)))
     = map (valid_at c) idx"
    by (induction idx) (simp_all add: valid_at_def)
  then show ?thesis by (simp add: broadcast2_same)
qed

lemma mask_columns_sorted:
  "mask_columns \<lparr>c_lon = map (\<lambda>i. c_lon c ! i) idx,
            c_lat = map (\<lambda>i. c_lat c ! i) idx,
            c_alt = map (\<lambda>i. c_alt c ! i) idx,
            c_ref = map (\<lambda>i. c_ref c ! i) idx,
            c_time = map (\<lambda>i. c_time c ! i) idx\<rparr>
   = Inr \<lparr>c_lon = map (\<lambda>i. c_lon c ! i) (filter (valid_at c) idx),
            c_lat = map (\<lambda>i. c_lat c ! i) (filter (valid_at c) idx),
            c_alt = map (\<lambda>i. c_alt c ! i) (filter (valid_at c) idx),
            c_ref = map (\<lambda>i. c_ref c ! i) (filter (valid_at c) idx),
            c_time = map (\<lambda>i. c_time c ! i) (filter (valid_at c) idx)\<rparr>"
  by (simp only: mask_columns_def columns.select_convs mask_of_sorted bind_err_Inr
      bool_index_map)

lemma convert_Inr:
  "convert a g = Inr pc \<longleftrightarrow>
     (\<exists>c. convert_projected g = Inr c \<and> in_bounds c (a (c_time c))
        \<and> pc = \<lparr>pc_lat = map (\<lambda>i. c_lat c ! i) (retained a c),
                 pc_lon = map (\<lambda>i. c_lon c ! i) (retained a c),
                 pc_alt = map (\<lambda>i. c_alt c ! i) (retained a c),
                 pc_ref = map (\<lambda>i. c_ref c ! i) (retained a c),
                 pc_time = map (\<lambda>i. c_time c ! i) (retained a c)\<rparr>)"
  by (auto simp: convert_def convert_sorted_def bind_err_eq_Inr sort_columns_Inr
      mask_columns_sorted retained_def)

lemma convert_sorted_Inr:
  "convert_sorted a g = Inr s \<longleftrightarrow>
     (\<exists>c. convert_projected g = Inr c \<and> in_bounds c (a (c_time c))
        \<and> s = \<lparr>c_lon = map (\<lambda>i. c_lon c ! i) (a (c_time c)),
            c_lat = map (\<lambda>i. c_lat c ! i) (a (c_time c)),
            c_alt = map (\<lambda>i. c_alt c ! i) (a (c_time c)),
            c_ref = map (\<lambda>i. c_ref c ! i) (a (c_time c)),
            c_time = map (\<lambda>i. c_time c ! i) (a (c_time c))\<rparr>)"
  by (auto simp: convert_sorted_def bind_err_eq_Inr sort_columns_Inr)

lemma down_vector_same:
  assumes "length roll = n" "length pitch = n" "length head = n"
  shows "down_vector roll pitch head =
     Inr (map (\<lambda>k. down_x (roll ! k) (pitch ! k) (head ! k)) [0..<n],
          map (\<lambda>k. down_y (roll ! k) (pitch ! k) (head ! k)) [0..<n],
          map (\<lambda>k. down_z (roll ! k) (pitch ! k)) [0..<n])"
proof -
  have x: "map (\<lambda>(x, y). fadd x y)
            (zip (map (\<lambda>(x, y). fmul x y) (zip (map fsin roll) (map fcos head)))
                 (map (\<lambda>(x, y). fmul x y)
                    (zip (map (\<lambda>(x, y). fmul x y) (zip (map fcos roll) (map fsin pitch)))
                         (map fsin head))))
           = map (\<lambda>k. down_x (roll ! k) (pitch ! k) (head ! k)) [0..<n]"
    using assms by (intro nth_equalityI) (simp_all add: down_x_def)
  have y: "map (\<lambda>(x, y). fadd x y)
            (zip (map (\<lambda>(x, y). fmul x y) (zip (map (\<lambda>v. fneg (fsin v)) roll) (map fsin head)))
                 (map (\<lambda>(x, y). fmul x y)
                    (zip (map (\<lambda>(x, y). fmul x y) (zip (map fcos roll) (map fsin pitch)))
                         (map fcos head))))
           = map (\<lambda>k. down_y (roll ! k) (pitch ! k) (head ! k)) [0..<n]"
    using assms by (intro nth_equalityI) (simp_all add: down_y_def)
  have z: "map (\<lambda>(x, y). fmul x y) (zip (map (\<lambda>v. fneg (fcos v)) roll) (map fcos pitch))
           = map (\<lambda>k. down_z (roll ! k) (pitch ! k)) [0..<n]"
    using assms by (intro nth_equalityI) (simp_all add: down_z_def)
  show ?thesis
    unfolding down_vector_def
    using assms by (simp add: broadcast2_same x y z)
qed

lemma project_same:
  assumes "length lon = n" "length lat = n" "length alt = n" "length roll = n"
    "length pitch = n" "length head = n" "length rg = n"
  shows "project lon lat alt roll pitch head rg =
     Inr (map (\<lambda>k. sample_lon (lon ! k) (lat ! k) (roll ! k) (pitch ! k) (head ! k) (rg ! k)) [0..<n],
          map (\<lambda>k. sample_lat (lat ! k) (roll ! k) (pitch ! k) (head ! k) (rg ! k)) [0..<n],
          map (\<lambda>k. sample_alt (alt ! k) (roll ! k) (pitch ! k) (rg ! k)) [0..<n])"
proof -
  let ?x = "map (\<lambda>k. down_x (roll ! k) (pitch ! k) (head ! k)) [0..<n]"
  let ?y = "map (\<lambda>k. down_y (roll ! k) (pitch ! k) (head ! k)) [0..<n]"
  let ?z = "map (\<lambda>k. down_z (roll ! k) (pitch ! k)) [0..<n]"
  have lo: "map (\<lambda>(x, y). fadd x y)
      (zip (map fneg (map (\<lambda>(x, y). fmul x y)
         (zip ?x (map (\<lambda>(x, y). fdiv x y)
                    (zip rg (map (\<lambda>v. fmul (Fin 111000) (fcos (deg2rad v))) lat)))))) lon)
     = map (\<lambda>k. sample_lon (lon ! k) (lat ! k) (roll ! k) (pitch ! k) (head ! k) (rg ! k)) [0..<n]"
    using assms by (intro nth_equalityI) (simp_all add: sample_lon_def)
  have la: "map (\<lambda>(x, y). fadd x y)
      (zip (map fneg (map (\<lambda>(x, y). fmul x y)
         (zip ?y (map (\<lambda>r. fdiv r (Fin 111000)) rg)))) lat)
     = map (\<lambda>k. sample_lat (lat ! k) (roll ! k) (pitch ! k) (head ! k) (rg ! k)) [0..<n]"
    using assms by (intro nth_equalityI) (simp_all add: sample_lat_def)
  have al: "map (\<lambda>(x, y). fadd x y) (zip (map (\<lambda>(x, y). fmul x y) (zip ?z rg)) alt)
     = map (\<lambda>k. sample_alt (alt ! k) (roll ! k) (pitch ! k) (rg ! k)) [0..<n]"
    using assms by (intro nth_equalityI) (simp_all add: sample_alt_def)
  show ?thesis
    unfolding project_def down_vector_same[OF assms(4,5,6)]
    using assms by (simp add: broadcast2_same lo la al del: map_map)
qed


lemma getitem_Inr: "getitem name v = Inr a \<longleftrightarrow> v = Some a"
  by (cases v) (simp_all add: getitem_def)





lemma load_vars_Inr:
  "load_vars ds = Inr v \<Longrightarrow>
     (\<exists>rd pd hd. ds_roll ds = Some rd \<and> l_roll v = map deg2rad rd
        \<and> ds_pitch ds = Some pd \<and> l_pitch v = map deg2rad pd
        \<and> ds_head ds = Some hd \<and> l_head v = map deg2rad hd)
     \<and> ds_ref ds = Some (l_ref v) \<and> ds_lat ds = Some (l_lat v) \<and> ds_lon ds = Some (l_lon v)
     \<and> ds_range ds = Some (l_range v)
     \<and> (ds_height ds = Some (l_alt v) \<or> (ds_height ds = None \<and> ds_alt ds = Some (l_alt v)))"
  unfolding load_vars_def
  by (auto simp: bind_err_eq_Inr getitem_Inr get_height_or_alt_def split: option.splits)







lemma convert_projected_consistent:
  assumes lv: "load_vars (gr_ds g) = Inr v" and co: "consistent v"
  shows "convert_projected g =
     Inr \<lparr>c_lon = map (\<lambda>k. sample_lon (l_lon v ! (k div g_num_row (l_ref v)))
                             (l_lat v ! (k div g_num_row (l_ref v)))
                             (l_roll v ! (k div g_num_row (l_ref v)))
                             (l_pitch v ! (k div g_num_row (l_ref v)))
                             (l_head v ! (k div g_num_row (l_ref v)))
                             (l_range v ! (k mod g_num_row (l_ref v))))
                    [0..<g_num_col (l_ref v) * g_num_row (l_ref v)],
          c_lat = map (\<lambda>k. sample_lat (l_lat v ! (k div g_num_row (l_ref v)))
                             (l_roll v ! (k div g_num_row (l_ref v)))
                             (l_pitch v ! (k div g_num_row (l_ref v)))
                             (l_head v ! (k div g_num_row (l_ref v)))
                             (l_range v ! (k mod g_num_row (l_ref v))))
                    [0..<g_num_col (l_ref v) * g_num_row (l_ref v)],
          c_alt = map (\<lambda>k. sample_alt (l_alt v ! (k div g_num_row (l_ref v)))
                             (l_roll v ! (k div g_num_row (l_ref v)))
                             (l_pitch v ! (k div g_num_row (l_ref v)))
                             (l_range v ! (k mod g_num_row (l_ref v))))
                    [0..<g_num_col (l_ref v) * g_num_row (l_ref v)],
          c_ref = g_cells (l_ref v),
          c_time = np_repeat (gr_normal_time g) (g_num_row (l_ref v))\<rparr>"
proof -
  let ?C = "g_num_col (l_ref v)" and ?R = "g_num_row (l_ref v)"
  from co have len: "length (l_lat v) = ?C" "length (l_lon v) = ?C" "length (l_alt v) = ?C"
    "length (l_roll v) = ?C" "length (l_pitch v) = ?C" "length (l_head v) = ?C"
    "length (l_range v) = ?R"
    by (simp_all add: consistent_def)
  have p: "project (np_repeat (l_lon v) ?R) (np_repeat (l_lat v) ?R) (np_repeat (l_alt v) ?R)
             (np_repeat (l_roll v) ?R) (np_repeat (l_pitch v) ?R) (np_repeat (l_head v) ?R)
             (np_tile (l_range v) ?C)
     = Inr (map (\<lambda>k. sample_lon (np_repeat (l_lon v) ?R ! k) (np_repeat (l_lat v) ?R ! k)
                   (np_repeat (l_roll v) ?R ! k) (np_repeat (l_pitch v) ?R ! k)
                   (np_repeat (l_head v) ?R ! k) (np_tile (l_range v) ?C ! k)) [0..<?C * ?R],
            map (\<lambda>k. sample_lat (np_repeat (l_lat v) ?R ! k)
                   (np_repeat (l_roll v) ?R ! k) (np_repeat (l_pitch v) ?R ! k)
                   (np_repeat (l_head v) ?R ! k) (np_tile (l_range v) ?C ! k)) [0..<?C * ?R],
            map (\<lambda>k. sample_alt (np_repeat (l_alt v) ?R ! k)
                   (np_repeat (l_roll v) ?R ! k) (np_repeat (l_pitch v) ?R ! k)
                   (np_tile (l_range v) ?C ! k)) [0..<?C * ?R])"
    by (rule project_same) (simp_all add: len)
  have rep: "np_repeat xs ?R ! k = xs ! (k div ?R)" if "length xs = ?C" "k < ?C * ?R" for xs :: "npfloat list" and k
    using that by (simp add: nth_np_repeat)
  have til: "np_tile (l_range v) ?C ! k = l_range v ! (k mod ?R)" if "k < ?C * ?R" for k
    using that nth_np_tile[of k ?C "l_range v"] by (simp add: len)
  show ?thesis
    unfolding convert_projected_def Let_def lv bind_err_Inr p
    by (simp add: rep til len cong: map_cong)
qed

section \<open>Results about convert\<close>

lemma deg2rad_Fin: "deg2rad (Fin d) = Fin (d * pi / 180)"
  by (simp add: deg2rad_def)

lemma block_index:
  assumes "j < (R::nat)"
  shows "(i * R + j) div R = i" "(i * R + j) mod R = j"
  using assms by simp_all

lemma block_index_less:
  assumes "i < (C::nat)" "j < R"
  shows "i * R + j < C * R"
proof -
  have "i * R + j < i * R + R" using assms(2) by simp
  also have "\<dots> = Suc i * R" by simp
  also have "\<dots> \<le> C * R" using assms(1) by (intro mult_le_mono1) simp
  finally show ?thesis .
qed

text \<open>
  C5. When the shapes agree, the projected arrays hold at index \<open>i * num_row + j\<close> the
  sample of along-track index \<open>i\<close> and range bin \<open>j\<close>. For finite values, with roll
  \<open>r\<close>, pitch \<open>p\<close> and heading \<open>h\<close> in radians (the dataset's degrees times pi / 180)
  and a latitude whose cosine is not zero, the down vector is
  \<open>x = sin r cos h + cos r sin p sin h\<close>, \<open>y = - sin r sin h + cos r sin p cos h\<close>,
  \<open>z = - cos r cos p\<close>, and the sample's longitude is \<open>lon - range * x / (111000 *
  cos lat_rad)\<close>, its latitude \<open>lat - range * y / 111000\<close> and its altitude
  \<open>alt + range * z\<close>. At roll, pitch and heading 0 the down vector is (0, 0, -1).
\<close>

theorem projection_formula:
  assumes "load_vars (gr_ds g) = Inr v" and "consistent v"
    and "i < g_num_col (l_ref v)" and "j < g_num_row (l_ref v)"
    and "l_lon v ! i = Fin lon0" and "l_lat v ! i = Fin lat0" and "l_alt v ! i = Fin alt0"
    and "l_roll v ! i = Fin r" and "l_pitch v ! i = Fin p" and "l_head v ! i = Fin h"
    and "l_range v ! j = Fin rg" and "cos (lat0 * pi / 180) \<noteq> 0"
  shows "\<exists>c. convert_projected g = Inr c
     \<and> c_lon c ! (i * g_num_row (l_ref v) + j)
         = Fin (lon0 - rg * (sin r * cos h + cos r * sin p * sin h) / (111000 * cos (lat0 * pi / 180)))
     \<and> c_lat c ! (i * g_num_row (l_ref v) + j)
         = Fin (lat0 - rg * (- sin r * sin h + cos r * sin p * cos h) / 111000)
     \<and> c_alt c ! (i * g_num_row (l_ref v) + j) = Fin (alt0 + rg * (- cos r * cos p))
     \<and> c_ref c ! (i * g_num_row (l_ref v) + j) = g_cells (l_ref v) ! (i * g_num_row (l_ref v) + j)
     \<and> (\<exists>rd pd hd. ds_roll (gr_ds g) = Some rd \<and> l_roll v = map deg2rad rd
          \<and> ds_pitch (gr_ds g) = Some pd \<and> l_pitch v = map deg2rad pd
          \<and> ds_head (gr_ds g) = Some hd \<and> l_head v = map deg2rad hd)
     \<and> (\<forall>d. deg2rad (Fin d) = Fin (d * pi / 180))
     \<and> down_vector [Fin 0] [Fin 0] [Fin 0] = Inr ([Fin 0], [Fin 0], [Fin (- 1)])"
proof -
  let ?R = "g_num_row (l_ref v)"
  let ?k = "i * ?R + j"
  have k: "?k < g_num_col (l_ref v) * ?R" using assms(3,4) by (rule block_index_less)
  have d: "?k div ?R = i" "?k mod ?R = j" using assms(4) by (rule block_index)+
  note c = convert_projected_consistent[OF assms(1,2)]
  have lon: "sample_lon (Fin lon0) (Fin lat0) (Fin r) (Fin p) (Fin h) (Fin rg)
      = Fin (lon0 - rg * (sin r * cos h + cos r * sin p * sin h) / (111000 * cos (lat0 * pi / 180)))"
    using assms(12) by (simp add: sample_lon_def down_x_def deg2rad_def)
  have lat: "sample_lat (Fin lat0) (Fin r) (Fin p) (Fin h) (Fin rg)
      = Fin (lat0 - rg * (- sin r * sin h + cos r * sin p * cos h) / 111000)"
    by (simp add: sample_lat_def down_y_def)
  have alt: "sample_alt (Fin alt0) (Fin r) (Fin p) (Fin rg) = Fin (alt0 + rg * (- cos r * cos p))"
    by (simp add: sample_alt_def down_z_def)
  have dv: "down_vector [Fin 0] [Fin 0] [Fin 0] = Inr ([Fin 0], [Fin 0], [Fin (- 1)])"
    by (simp add: down_vector_def broadcast2_def)
  from load_vars_Inr[OF assms(1)]
  have rad: "\<exists>rd pd hd. ds_roll (gr_ds g) = Some rd \<and> l_roll v = map deg2rad rd
          \<and> ds_pitch (gr_ds g) = Some pd \<and> l_pitch v = map deg2rad pd
          \<and> ds_head (gr_ds g) = Some hd \<and> l_head v = map deg2rad hd"
    by blast
  show ?thesis
    unfolding c
    using k d lon lat alt dv rad assms(5-11) by (simp add: deg2rad_Fin)
qed

lemma nan_load: "load_vars (gr_ds nan_granule) = Inr nan_loaded"
  by (simp add: load_vars_def nan_granule_def nan_loaded_def getitem_def get_height_or_alt_def
      deg2rad_def)

lemma nan_consistent: "consistent nan_loaded"
  by (simp add: consistent_def nan_loaded_def grid_ok_def)

lemma upt_4: "[0..<4] = [0, 1, 2, 3]"
  by (simp add: upt_rec)

lemma replicate_2: "replicate 2 x = [x, x]"
  by (simp add: numeral_2_eq_2)

lemma nan_projected:
  "convert_projected nan_granule =
     Inr \<lparr>c_lon = [Fin 0, Fin 0, Fin 0, Fin 0], c_lat = [Fin 0, Fin 0, Fin 0, Fin 0],
          c_alt = [Fin 900, Fin 800, Fin 900, Fin 800],
          c_ref = [Fin 10, NaN, Fin 30, Fin 40], c_time = [100, 100, 200, 200]\<rparr>"
  unfolding convert_projected_consistent[OF nan_load nan_consistent]
  by (simp add: nan_loaded_def nan_granule_def upt_4 sample_lon_def sample_lat_def sample_alt_def
      down_x_def down_y_def down_z_def deg2rad_def np_repeat_def replicate_2)

lemma length_filter_mset:
  assumes "mset xs = mset ys"
  shows "length (filter P xs) = length (filter P ys)"
proof -
  have "mset (filter P xs) = mset (filter P ys)"
    using assms by (simp only: mset_filter)
  then show ?thesis by (rule mset_eq_length)
qed

lemma in_bounds_argsort:
  assumes "is_argsort (c_time c) idx"
    and "length (c_time c) \<le> length (c_lon c)" "length (c_time c) \<le> length (c_lat c)"
    and "length (c_time c) \<le> length (c_alt c)" "length (c_time c) \<le> length (c_ref c)"
  shows "in_bounds c idx"
  using is_argsort_set[OF assms(1)] assms(2-5)
  by (auto simp: in_bounds_def list_all_iff)

lemma nan_example:
  assumes "is_argsort [100, 100, 200, 200] (b [100, 100, 200, 200])"
  shows "\<exists>pc. convert b nan_granule = Inr pc \<and> length (pc_ref pc) = 3"
proof -
  let ?c = "\<lparr>c_lon = [Fin 0, Fin 0, Fin 0, Fin 0], c_lat = [Fin 0, Fin 0, Fin 0, Fin 0],
          c_alt = [Fin 900, Fin 800, Fin 900, Fin 800],
          c_ref = [Fin 10, NaN, Fin 30, Fin 40], c_time = [100, 100, 200, 200]\<rparr>"
  let ?idx = "b [100, 100, 200, 200]"
  have t: "c_time ?c = [100, 100, 200, 200]" by simp
  have ib: "in_bounds ?c (b (c_time ?c))"
    by (rule in_bounds_argsort) (simp_all add: assms)
  from assms have "mset ?idx = mset [0..<length [100, 100, 200, 200 :: int]]"
    unfolding is_argsort_def by (rule conjunct1)
  then have "length (filter (valid_at ?c) ?idx)
      = length (filter (valid_at ?c) [0..<length [100, 100, 200, 200 :: int]])"
    by (rule length_filter_mset)
  also have "\<dots> = 3"
    by (simp add: upt_rec valid_at_def)
  finally have n: "length (retained b ?c) = 3"
    by (simp add: retained_def)
  show ?thesis
    using nan_projected ib n by (simp add: convert_Inr)
qed

text \<open>
  C3. Every PointCloud that \<open>convert\<close> returns has five sequences of one length;
  every reflectivity in it is finite and every altitude is above zero; and the five
  sequences are the projected arrays read at one and the same list of indices, the
  indices of \<open>np.argsort\<close> that pass the filter, so samples are dropped and none is
  replaced. For the grid of two by two cells with one NaN (all corrected altitudes
  positive) the PointCloud has exactly three points, whatever order \<open>np.argsort\<close>
  gives to equal times.
\<close>

theorem convert_invariants:
  "(convert a g = Inr pc \<longrightarrow>
      length (pc_lat pc) = length (pc_time pc) \<and> length (pc_lon pc) = length (pc_time pc)
      \<and> length (pc_alt pc) = length (pc_time pc) \<and> length (pc_ref pc) = length (pc_time pc)
      \<and> list_all isfinite (pc_ref pc) \<and> list_all (\<lambda>x. fless (Fin 0) x) (pc_alt pc)
      \<and> (\<exists>c. convert_projected g = Inr c
            \<and> pc_lat pc = map (\<lambda>k. c_lat c ! k) (retained a c)
            \<and> pc_lon pc = map (\<lambda>k. c_lon c ! k) (retained a c)
            \<and> pc_alt pc = map (\<lambda>k. c_alt c ! k) (retained a c)
            \<and> pc_ref pc = map (\<lambda>k. c_ref c ! k) (retained a c)
            \<and> pc_time pc = map (\<lambda>k. c_time c ! k) (retained a c)))
   \<and> (is_argsort [100, 100, 200, 200] (b [100, 100, 200, 200]) \<longrightarrow>
        (\<exists>pc. convert b nan_granule = Inr pc \<and> length (pc_ref pc) = 3))"
proof (intro conjI impI)
  assume "convert a g = Inr pc"
  then obtain c where c: "convert_projected g = Inr c"
    and pc: "pc = \<lparr>pc_lat = map (\<lambda>i. c_lat c ! i) (retained a c),
                 pc_lon = map (\<lambda>i. c_lon c ! i) (retained a c),
                 pc_alt = map (\<lambda>i. c_alt c ! i) (retained a c),
                 pc_ref = map (\<lambda>i. c_ref c ! i) (retained a c),
                 pc_time = map (\<lambda>i. c_time c ! i) (retained a c)\<rparr>"
    unfolding convert_Inr by blast
  show "length (pc_lat pc) = length (pc_time pc)" "length (pc_lon pc) = length (pc_time pc)"
    "length (pc_alt pc) = length (pc_time pc)" "length (pc_ref pc) = length (pc_time pc)"
    by (simp_all add: pc)
  show "list_all isfinite (pc_ref pc)"
    by (simp add: pc list_all_iff retained_def valid_at_def)
  show "list_all (\<lambda>x. fless (Fin 0) x) (pc_alt pc)"
    by (simp add: pc list_all_iff retained_def valid_at_def)
  show "\<exists>c. convert_projected g = Inr c
            \<and> pc_lat pc = map (\<lambda>k. c_lat c ! k) (retained a c)
            \<and> pc_lon pc = map (\<lambda>k. c_lon c ! k) (retained a c)
            \<and> pc_alt pc = map (\<lambda>k. c_alt c ! k) (retained a c)
            \<and> pc_ref pc = map (\<lambda>k. c_ref c ! k) (retained a c)
            \<and> pc_time pc = map (\<lambda>k. c_time c ! k) (retained a c)"
    using c by (simp add: pc)
next
  assume "is_argsort [100, 100, 200, 200] (b [100, 100, 200, 200])"
  then show "\<exists>pc. convert b nan_granule = Inr pc \<and> length (pc_ref pc) = 3"
    by (rule nan_example)
qed

lemma nan_stable: "stable_argsort [100, 100, 200, 200] = [0, 1, 2, 3]"
  by (simp add: stable_argsort_def upt_4)

text \<open>C3, a witness: the PointCloud of \<open>nan_granule\<close> under a stable argsort.\<close>

theorem convert_invariants_witness:
  "convert stable_argsort nan_granule =
     Inr \<lparr>pc_lat = [Fin 0, Fin 0, Fin 0], pc_lon = [Fin 0, Fin 0, Fin 0],
          pc_alt = [Fin 900, Fin 900, Fin 800], pc_ref = [Fin 10, Fin 30, Fin 40],
          pc_time = [100, 200, 200]\<rparr>
   \<and> list_all isfinite [Fin 10, Fin 30, Fin 40]
   \<and> (\<exists>pc. convert stable_argsort nan_granule = Inr pc \<and> length (pc_ref pc) = 3)"
proof -
  let ?pc = "\<lparr>pc_lat = [Fin 0, Fin 0, Fin 0], pc_lon = [Fin 0, Fin 0, Fin 0],
          pc_alt = [Fin 900, Fin 900, Fin 800], pc_ref = [Fin 10, Fin 30, Fin 40],
          pc_time = [100, 200, 200]\<rparr>"
  have e: "convert stable_argsort nan_granule = Inr ?pc"
    by (simp add: convert_Inr nan_projected nan_stable in_bounds_def retained_def valid_at_def)
  have s: "is_argsort [100, 100, 200, 200] (stable_argsort [100, 100, 200, 200])"
    by (rule stable_argsort_ok)
  from convert_invariants[of stable_argsort nan_granule ?pc stable_argsort] e s
  have "list_all isfinite (pc_ref ?pc)"
    and "\<exists>pc. convert stable_argsort nan_granule = Inr pc \<and> length (pc_ref pc) = 3"
    by blast+
  with e show ?thesis by simp
qed

text \<open>C5, a witness: the last sample of \<open>nan_granule\<close> (second along-track index,
  range 200 m) stays at longitude and latitude 0 and lies at 800 m.\<close>

theorem projection_formula_witness:
  "\<exists>c. convert_projected nan_granule = Inr c
     \<and> c_lon c ! 3 = Fin 0 \<and> c_lat c ! 3 = Fin 0 \<and> c_alt c ! 3 = Fin 800
     \<and> c_ref c ! 3 = Fin 40"
proof -
  have h: "(1::nat) < g_num_col (l_ref nan_loaded)" "(1::nat) < g_num_row (l_ref nan_loaded)"
    "l_lon nan_loaded ! 1 = Fin 0" "l_lat nan_loaded ! 1 = Fin 0"
    "l_alt nan_loaded ! 1 = Fin 1000" "l_roll nan_loaded ! 1 = Fin 0"
    "l_pitch nan_loaded ! 1 = Fin 0" "l_head nan_loaded ! 1 = Fin 0"
    "l_range nan_loaded ! 1 = Fin 200" "cos (0 * pi / 180) \<noteq> (0::real)"
    by (simp_all add: nan_loaded_def)
  from projection_formula[OF nan_load nan_consistent h]
  obtain c where "convert_projected nan_granule = Inr c"
    and "c_lon c ! (1 * g_num_row (l_ref nan_loaded) + 1)
         = Fin (0 - 200 * (sin 0 * cos 0 + cos 0 * sin 0 * sin 0) / (111000 * cos (0 * pi / 180)))"
    and "c_lat c ! (1 * g_num_row (l_ref nan_loaded) + 1)
         = Fin (0 - 200 * (- sin 0 * sin 0 + cos 0 * sin 0 * cos 0) / 111000)"
    and "c_alt c ! (1 * g_num_row (l_ref nan_loaded) + 1) = Fin (1000 + 200 * (- cos 0 * cos 0))"
    and "c_ref c ! (1 * g_num_row (l_ref nan_loaded) + 1)
         = g_cells (l_ref nan_loaded) ! (1 * g_num_row (l_ref nan_loaded) + 1)"
    by blast
  then show ?thesis by (intro exI[of _ c]) (simp add: nan_loaded_def)
qed

lemma replicate_1: "replicate 1 x = [x]"
  by simp

















lemma length_pick [simp]: "length (pick p xs) = length p"
  by (simp add: pick_def)















end
